theory Spec2Isabelle
  imports Complex_Main
begin

section \<open>Python values, exceptions and the request envelope\<close>

text \<open>
  The bridge (\<^verbatim>\<open>mongodb_bridge.py\<close>) is dynamically typed: a request body, a filter, a
  document returned by the driver are all Python values. One datatype covers them.
  \<open>PExt\<close> holds the BSON-specific objects (ObjectId, datetime, Binary, ...) that only
  the driver and \<^verbatim>\<open>bson.json_util\<close> create; their type \<open>'x\<close> is opaque to the bridge.
  A value without \<open>PExt\<close> is what \<^verbatim>\<open>request.get_json()\<close> and \<^verbatim>\<open>json.loads\<close> deliver.
  A dict is an association list read with \<open>map_of\<close> (keys are strings, as in JSON and
  BSON). \<open>PFloat\<close> carries the finite floats; NaN and the infinities are outside the model.
\<close>

datatype 'x pyval =
    PNone
  | PBool bool
  | PInt int
  | PFloat rat
  | PStr string
  | PList "'x pyval list"
  | PDict "(string \<times> 'x pyval) list"
  | PExt 'x

text \<open>
  Every handler distinguishes two classes of exception: \<^verbatim>\<open>except PyMongoError\<close> comes
  first, \<^verbatim>\<open>except Exception\<close> second. The string is \<^verbatim>\<open>str(e)\<close>. Exceptions outside
  \<^verbatim>\<open>Exception\<close> (KeyboardInterrupt, SystemExit) are not modelled.
\<close>

datatype exn = PyMongoError string | OtherException string

text \<open>Sequencing of calls that may raise: the first exception ends the computation.\<close>

definition bindE :: "exn + 'a \<Rightarrow> ('a \<Rightarrow> exn + 'b) \<Rightarrow> exn + 'b" where
  "bindE m f = (case m of Inl e \<Rightarrow> Inl e | Inr a \<Rightarrow> f a)"

text \<open>
  What the bridge reads of a Flask request: \<^verbatim>\<open>request.headers.get(name)\<close> and
  \<^verbatim>\<open>request.get_json()\<close>, which returns the decoded body or raises (a malformed body
  or a wrong content type raises a werkzeug exception, a subclass of \<^verbatim>\<open>Exception\<close>).
\<close>

record 'x request =
  headers :: "string \<Rightarrow> string option"
  get_json :: "exn + 'x pyval"

text \<open>A response is \<^verbatim>\<open>jsonify(body), status\<close>; the status is 200 when none is given.\<close>

record 'x response =
  status :: nat
  body :: "'x pyval"

definition jsonify :: "'x pyval \<Rightarrow> nat \<Rightarrow> 'x response" where
  "jsonify b st = \<lparr>status = st, body = b\<rparr>"

definition error_body :: "string \<Rightarrow> 'x pyval" where
  "error_body msg = PDict [(''error'', PStr msg)]"

subsection \<open>The Python operations the handlers use\<close>

text \<open>
  The libraries the bridge calls but does not contain: \<^verbatim>\<open>bson.json_util\<close>, \<^verbatim>\<open>json\<close>
  and the truth value of a BSON object. They are parameters of the model. The bridge
  never looks inside the JSON text that passes between a \<^verbatim>\<open>dumps\<close> and a \<^verbatim>\<open>loads\<close>;
  \<open>'t\<close> is its type.
\<close>

record ('x, 't) lib =
  json_util_loads :: "'t \<Rightarrow> exn + 'x pyval"
  json_util_dumps :: "'x pyval \<Rightarrow> exn + 't"
  json_loads :: "'t \<Rightarrow> exn + 'x pyval"
  json_dumps :: "'x pyval \<Rightarrow> exn + 't"
  ext_truthy :: "'x \<Rightarrow> bool"

text \<open>Python's truth value (\<^verbatim>\<open>if x\<close>, \<^verbatim>\<open>not x\<close>).\<close>

fun truthy :: "('x, 't) lib \<Rightarrow> 'x pyval \<Rightarrow> bool" where
  "truthy L PNone = False"
| "truthy L (PBool b) = b"
| "truthy L (PInt n) = (n \<noteq> 0)"
| "truthy L (PFloat r) = (r \<noteq> 0)"
| "truthy L (PStr s) = (s \<noteq> [])"
| "truthy L (PList xs) = (xs \<noteq> [])"
| "truthy L (PDict kvs) = (kvs \<noteq> [])"
| "truthy L (PExt x) = ext_truthy L x"

fun type_name :: "'x pyval \<Rightarrow> string" where
  "type_name PNone = ''NoneType''"
| "type_name (PBool b) = ''bool''"
| "type_name (PInt n) = ''int''"
| "type_name (PFloat r) = ''float''"
| "type_name (PStr s) = ''str''"
| "type_name (PList xs) = ''list''"
| "type_name (PDict kvs) = ''dict''"
| "type_name (PExt x) = ''object''"

text \<open>
  \<^verbatim>\<open>d.get(key, default)\<close>: the value at the key, the default when the key is absent,
  AttributeError when \<open>d\<close> is not a dict (a JSON body can be a list, a string, a number).
\<close>

fun py_get :: "'x pyval \<Rightarrow> string \<Rightarrow> 'x pyval \<Rightarrow> exn + 'x pyval" where
  "py_get (PDict kvs) k dflt = Inr (case map_of kvs k of None \<Rightarrow> dflt | Some v \<Rightarrow> v)"
| "py_get v k dflt =
     Inl (OtherException ([CHR 0x27] @ type_name v @ [CHR 0x27] @ '' object has no attribute '' @ [CHR 0x27] @ ''get'' @ [CHR 0x27]))"

text \<open>\<^verbatim>\<open>d[key]\<close>: KeyError when the key is absent, TypeError when \<open>d\<close> is not a dict.\<close>

fun py_item :: "'x pyval \<Rightarrow> string \<Rightarrow> exn + 'x pyval" where
  "py_item (PDict kvs) k =
     (case map_of kvs k of None \<Rightarrow> Inl (OtherException ([CHR 0x27] @ k @ [CHR 0x27])) | Some v \<Rightarrow> Inr v)"
| "py_item v k = Inl (OtherException ''TypeError'')"

fun isinstance_dict :: "'x pyval \<Rightarrow> bool" where
  "isinstance_dict (PDict kvs) = True"
| "isinstance_dict v = False"

text \<open>\<^verbatim>\<open>len(xs)\<close> of a Python list.\<close>

definition py_len :: "'x pyval list \<Rightarrow> 'x pyval" where
  "py_len xs = PInt (int (length xs))"

section \<open>Configuration (lines 46-59)\<close>

text \<open>
  \<^verbatim>\<open>MONGO_URI\<close> and \<^verbatim>\<open>API_KEY\<close> come from the environment. A missing or empty
  \<^verbatim>\<open>API_KEY\<close> is replaced by \<^verbatim>\<open>secrets.token_urlsafe(32)\<close>, here the parameter \<open>token\<close>.
\<close>

definition MONGO_URI :: "string option \<Rightarrow> string" where
  "MONGO_URI env = (case env of None \<Rightarrow> ''mongodb://localhost:27017'' | Some u \<Rightarrow> u)"

definition API_KEY :: "string option \<Rightarrow> string \<Rightarrow> string" where
  "API_KEY env token = (case env of None \<Rightarrow> token | Some k \<Rightarrow> if k = [] then token else k)"

record config =
  mongo_uri :: string
  api_key :: string


section \<open>The driver (pymongo), a parameter of the model\<close>

text \<open>
  The handlers delegate every operation to pymongo, which is not part of the repository.
  Each driver call the source makes is a field of the record below; it returns its value
  or raises. \<open>'o\<close> is the type of the driver's objects (Database, Collection, Cursor).
  The client handle is a number: the index of the \<^verbatim>\<open>MongoClient\<close> construction that
  made it. For the duration of one request the calls are functions of their arguments.
\<close>

record 'x update_result =
  matched_count :: int
  modified_count :: int
  upserted_id :: "'x pyval"

record ('x, 'o) driver =
  MongoClient :: "string \<Rightarrow> exn option"
  drv_list_databases :: "nat \<Rightarrow> exn + 'x pyval list"
  drv_database :: "nat \<Rightarrow> 'x pyval \<Rightarrow> exn + 'o"
  drv_collection :: "'o \<Rightarrow> 'x pyval \<Rightarrow> exn + 'o"
  drv_list_collection_names :: "'o \<Rightarrow> exn + 'x pyval list"
  drv_command :: "'o \<Rightarrow> 'x pyval \<Rightarrow> 'x pyval \<Rightarrow> exn + 'x pyval"
  drv_find :: "'o \<Rightarrow> 'x pyval \<Rightarrow> 'x pyval \<Rightarrow> exn + 'o"
  drv_sort :: "'o \<Rightarrow> 'x pyval \<Rightarrow> exn + 'o"
  drv_skip :: "'o \<Rightarrow> 'x pyval \<Rightarrow> exn + 'o"
  drv_limit :: "'o \<Rightarrow> 'x pyval \<Rightarrow> exn + 'o"
  drv_list :: "'o \<Rightarrow> exn + 'x pyval list"
  drv_aggregate :: "'o \<Rightarrow> 'x pyval \<Rightarrow> exn + 'x pyval list"
  drv_insert_many :: "'o \<Rightarrow> 'x pyval \<Rightarrow> 'x pyval \<Rightarrow> exn + 'x pyval list"
  drv_update_many :: "'o \<Rightarrow> 'x pyval \<Rightarrow> 'x pyval \<Rightarrow> 'x pyval \<Rightarrow> exn + 'x update_result"
  drv_update_one :: "'o \<Rightarrow> 'x pyval \<Rightarrow> 'x pyval \<Rightarrow> 'x pyval \<Rightarrow> exn + 'x update_result"
  drv_delete_many :: "'o \<Rightarrow> 'x pyval \<Rightarrow> exn + int"
  drv_delete_one :: "'o \<Rightarrow> 'x pyval \<Rightarrow> exn + int"
  drv_estimated_document_count :: "'o \<Rightarrow> exn + int"
  drv_list_indexes :: "'o \<Rightarrow> exn + 'x pyval list"

text \<open>\<^verbatim>\<open>client[db_name][coll_name]\<close>\<close>

definition client_db_coll :: "('x, 'o) driver \<Rightarrow> nat \<Rightarrow> 'x pyval \<Rightarrow> 'x pyval \<Rightarrow> exn + 'o" where
  "client_db_coll D c db_name coll_name =
     bindE (drv_database D c db_name) (\<lambda>database. drv_collection D database coll_name)"

section \<open>The connection singleton (lines 61-68)\<close>

text \<open>
  The only mutable state of the process: the global \<^verbatim>\<open>_client\<close>, and, to count
  initialisations, the number of \<^verbatim>\<open>MongoClient\<close> objects constructed so far.
\<close>

record world =
  client :: "nat option"
  created :: nat

definition world0 :: world where
  "world0 = \<lparr>client = None, created = 0\<rparr>"

definition get_client :: "('x, 'o) driver \<Rightarrow> config \<Rightarrow> world \<Rightarrow> (exn + nat) \<times> world" where
  "get_client D cfg w =
     (case client w of
        None \<Rightarrow>
          (case MongoClient D (mongo_uri cfg) of
             Some e \<Rightarrow> (Inl e, w)
           | None \<Rightarrow> (Inr (created w), w\<lparr>client := Some (created w), created := Suc (created w)\<rparr>))
      | Some c \<Rightarrow> (Inr c, w))"

text \<open>A view function runs in the world and returns a response or lets an exception escape.\<close>

type_synonym 'a action = "world \<Rightarrow> (exn + 'a) \<times> world"

definition bindW :: "'a action \<Rightarrow> ('a \<Rightarrow> 'b action) \<Rightarrow> 'b action" where
  "bindW m f = (\<lambda>w. case m w of (Inl e, w') \<Rightarrow> (Inl e, w') | (Inr a, w') \<Rightarrow> f a w')"

definition liftE :: "exn + 'a \<Rightarrow> 'a action" where
  "liftE x = (\<lambda>w. (x, w))"

definition respond :: "'x pyval \<Rightarrow> nat \<Rightarrow> 'x response action" where
  "respond b st = liftE (Inr (jsonify b st))"

text \<open>
  The two shapes of exception handling in the source. The GET views have the first
  clause only; the POST views have both, the second with the operation's prefix.
\<close>

definition except_PyMongoError :: "'x response action \<Rightarrow> 'x response action" where
  "except_PyMongoError m = (\<lambda>w. case m w of
       (Inl (PyMongoError msg), w') \<Rightarrow> (Inr (jsonify (error_body msg) 500), w')
     | (Inl (OtherException msg), w') \<Rightarrow> (Inl (OtherException msg), w')
     | (Inr r, w') \<Rightarrow> (Inr r, w'))"

definition except_PyMongoError_Exception :: "string \<Rightarrow> 'x response action \<Rightarrow> 'x response action" where
  "except_PyMongoError_Exception prefix m = (\<lambda>w. case m w of
       (Inl (PyMongoError msg), w') \<Rightarrow> (Inr (jsonify (error_body msg) 500), w')
     | (Inl (OtherException msg), w') \<Rightarrow> (Inr (jsonify (error_body (prefix @ msg)) 400), w')
     | (Inr r, w') \<Rightarrow> (Inr r, w'))"

section \<open>The codec wrappers (lines 71-78)\<close>

definition parse_json_extended :: "('x, 't) lib \<Rightarrow> 'x pyval \<Rightarrow> exn + 'x pyval" where
  "parse_json_extended L data = bindE (json_dumps L data) (json_util_loads L)"

definition serialize_response :: "('x, 't) lib \<Rightarrow> 'x pyval \<Rightarrow> exn + 'x pyval" where
  "serialize_response L data = bindE (json_util_dumps L data) (json_loads L)"

section \<open>The auth gate (lines 81-89)\<close>

definition require_api_key ::
  "config \<Rightarrow> ('x request \<Rightarrow> 'x response action) \<Rightarrow> 'x request \<Rightarrow> 'x response action" where
  "require_api_key cfg f req =
     (let provided_key = headers req ''X-API-Key'' in
      if (case provided_key of None \<Rightarrow> True | Some k \<Rightarrow> k = []) \<or> provided_key \<noteq> Some (api_key cfg)
      then respond (error_body ''Unauthorized - Invalid or missing API key'') 401
      else f req)"


section \<open>The views\<close>

text \<open>
  Each view is the body of its \<^verbatim>\<open>try\<close> block (suffix \<open>_try\<close>) under its
  \<^verbatim>\<open>except\<close> clauses. The statements are kept in the order of the source.
\<close>

subsection \<open>Health check (lines 92-111)\<close>

definition index :: "unit \<Rightarrow> 'x response" where
  "index u = jsonify (PDict [
      (''service'', PStr ''MongoDB HTTP Bridge''),
      (''status'', PStr ''running''),
      (''auth_required'', PBool True),
      (''endpoints'', PList [
         PStr ''GET  /databases'',
         PStr ''GET  /databases/<db>/collections'',
         PStr ''POST /query'',
         PStr ''POST /aggregate'',
         PStr ''POST /insert'',
         PStr ''POST /update'',
         PStr ''POST /delete'',
         PStr ''POST /command'',
         PStr ''GET  /collection/<db>/<collection>/count'',
         PStr ''GET  /collection/<db>/<collection>/indexes''])]) 200"

subsection \<open>list databases (lines 114-129)\<close>

definition database_entry :: "'x pyval \<Rightarrow> exn + 'x pyval" where
  "database_entry db_info =
     bindE (py_item db_info ''name'') (\<lambda>name.
     bindE (py_get db_info ''sizeOnDisk'' PNone) (\<lambda>size_on_disk.
     bindE (py_get db_info ''empty'' (PBool False)) (\<lambda>empty.
     Inr (PDict [(''name'', name), (''sizeOnDisk'', size_on_disk), (''empty'', empty)]))))"

fun database_entries :: "'x pyval list \<Rightarrow> exn + 'x pyval list" where
  "database_entries [] = Inr []"
| "database_entries (db_info # rest) =
     bindE (database_entry db_info) (\<lambda>e.
     bindE (database_entries rest) (\<lambda>es. Inr (e # es)))"

definition list_databases_try :: "('x, 'o) driver \<Rightarrow> config \<Rightarrow> 'x response action" where
  "list_databases_try D cfg =
     bindW (get_client D cfg) (\<lambda>client.
     liftE (bindE (drv_list_databases D client) (\<lambda>infos.
            bindE (database_entries infos) (\<lambda>databases.
            Inr (jsonify (PDict [(''databases'', PList databases)]) 200)))))"

definition list_databases :: "('x, 'o) driver \<Rightarrow> config \<Rightarrow> 'x response action" where
  "list_databases D cfg = except_PyMongoError (list_databases_try D cfg)"

subsection \<open>list collections (lines 132-157)\<close>

text \<open>The inner \<^verbatim>\<open>try\<close> of the loop body; its bare \<^verbatim>\<open>except:\<close> catches everything.\<close>

definition collection_stats :: "('x, 'o) driver \<Rightarrow> 'o \<Rightarrow> 'x pyval \<Rightarrow> exn + 'x pyval" where
  "collection_stats D database coll_name =
     bindE (drv_command D database (PStr ''collStats'') coll_name) (\<lambda>stats.
     bindE (py_get stats ''count'' (PInt 0)) (\<lambda>cnt.
     bindE (py_get stats ''size'' (PInt 0)) (\<lambda>sz.
     bindE (py_get stats ''avgObjSize'' (PInt 0)) (\<lambda>avg.
     Inr (PDict [(''name'', coll_name), (''count'', cnt), (''size'', sz), (''avgObjSize'', avg)])))))"

definition collection_entry :: "('x, 'o) driver \<Rightarrow> 'o \<Rightarrow> 'x pyval \<Rightarrow> 'x pyval" where
  "collection_entry D database coll_name =
     (case collection_stats D database coll_name of
        Inr entry \<Rightarrow> entry
      | Inl e \<Rightarrow> PDict [(''name'', coll_name)])"

definition list_collections_try :: "('x, 'o) driver \<Rightarrow> config \<Rightarrow> string \<Rightarrow> 'x response action" where
  "list_collections_try D cfg db =
     bindW (get_client D cfg) (\<lambda>client.
     liftE (bindE (drv_database D client (PStr db)) (\<lambda>database.
            bindE (drv_list_collection_names D database) (\<lambda>collections.
            Inr (jsonify (PDict [(''database'', PStr db),
                                 (''collections'', PList (map (collection_entry D database) collections))]) 200)))))"

definition list_collections :: "('x, 'o) driver \<Rightarrow> config \<Rightarrow> string \<Rightarrow> 'x response action" where
  "list_collections D cfg db = except_PyMongoError (list_collections_try D cfg db)"

subsection \<open>find (lines 160-220)\<close>

text \<open>\<^verbatim>\<open>if v: cursor = cursor.method(v)\<close>\<close>

definition cursor_if ::
  "('x, 't) lib \<Rightarrow> 'x pyval \<Rightarrow> ('o \<Rightarrow> 'x pyval \<Rightarrow> exn + 'o) \<Rightarrow> 'o \<Rightarrow> exn + 'o" where
  "cursor_if L v method cursor = (if truthy L v then method cursor v else Inr cursor)"

definition query_try :: "('x, 't) lib \<Rightarrow> ('x, 'o) driver \<Rightarrow> config \<Rightarrow> 'x request \<Rightarrow> 'x response action" where
  "query_try L D cfg req =
     bindW (liftE (get_json req)) (\<lambda>data.
     if \<not> truthy L data then respond (error_body ''Request body required'') 400 else
     bindW (liftE (py_get data ''database'' PNone)) (\<lambda>db_name.
     bindW (liftE (py_get data ''collection'' PNone)) (\<lambda>coll_name.
     if \<not> truthy L db_name \<or> \<not> truthy L coll_name
     then respond (error_body ''database and collection are required'') 400 else
     bindW (get_client D cfg) (\<lambda>client.
     liftE (
       bindE (client_db_coll D client db_name coll_name) (\<lambda>collection.
       bindE (py_get data ''filter'' (PDict [])) (\<lambda>flt.
       bindE (parse_json_extended L flt) (\<lambda>filter_query.
       bindE (py_get data ''projection'' PNone) (\<lambda>projection.
       bindE (py_get data ''sort'' PNone) (\<lambda>sort.
       bindE (py_get data ''limit'' (PInt 100)) (\<lambda>limit.
       bindE (py_get data ''skip'' (PInt 0)) (\<lambda>skip.
       bindE (drv_find D collection filter_query projection) (\<lambda>cursor.
       bindE (cursor_if L sort (drv_sort D) cursor) (\<lambda>cursor.
       bindE (cursor_if L skip (drv_skip D) cursor) (\<lambda>cursor.
       bindE (cursor_if L limit (drv_limit D) cursor) (\<lambda>cursor.
       bindE (drv_list D cursor) (\<lambda>documents.
       bindE (serialize_response L (PList documents)) (\<lambda>docs.
       Inr (jsonify (PDict [(''database'', db_name), (''collection'', coll_name),
                            (''count'', py_len documents), (''documents'', docs)]) 200)))))))))))))))))))"

definition query :: "('x, 't) lib \<Rightarrow> ('x, 'o) driver \<Rightarrow> config \<Rightarrow> 'x request \<Rightarrow> 'x response action" where
  "query L D cfg req = except_PyMongoError_Exception ''Query error: '' (query_try L D cfg req)"

subsection \<open>aggregate (lines 223-269)\<close>

definition aggregate_try :: "('x, 't) lib \<Rightarrow> ('x, 'o) driver \<Rightarrow> config \<Rightarrow> 'x request \<Rightarrow> 'x response action" where
  "aggregate_try L D cfg req =
     bindW (liftE (get_json req)) (\<lambda>data.
     if \<not> truthy L data then respond (error_body ''Request body required'') 400 else
     bindW (liftE (py_get data ''database'' PNone)) (\<lambda>db_name.
     bindW (liftE (py_get data ''collection'' PNone)) (\<lambda>coll_name.
     bindW (liftE (py_get data ''pipeline'' (PList []))) (\<lambda>pipeline.
     if \<not> truthy L db_name \<or> \<not> truthy L coll_name
     then respond (error_body ''database and collection are required'') 400 else
     bindW (get_client D cfg) (\<lambda>client.
     liftE (
       bindE (client_db_coll D client db_name coll_name) (\<lambda>collection.
       bindE (parse_json_extended L pipeline) (\<lambda>pipeline.
       bindE (drv_aggregate D collection pipeline) (\<lambda>results.
       bindE (serialize_response L (PList results)) (\<lambda>res.
       Inr (jsonify (PDict [(''database'', db_name), (''collection'', coll_name),
                            (''count'', py_len results), (''results'', res)]) 200)))))))))))"

definition aggregate :: "('x, 't) lib \<Rightarrow> ('x, 'o) driver \<Rightarrow> config \<Rightarrow> 'x request \<Rightarrow> 'x response action" where
  "aggregate L D cfg req =
     except_PyMongoError_Exception ''Aggregation error: '' (aggregate_try L D cfg req)"

subsection \<open>insert (lines 272-319)\<close>

definition insert_try :: "('x, 't) lib \<Rightarrow> ('x, 'o) driver \<Rightarrow> config \<Rightarrow> 'x request \<Rightarrow> 'x response action" where
  "insert_try L D cfg req =
     bindW (liftE (get_json req)) (\<lambda>data.
     if \<not> truthy L data then respond (error_body ''Request body required'') 400 else
     bindW (liftE (py_get data ''database'' PNone)) (\<lambda>db_name.
     bindW (liftE (py_get data ''collection'' PNone)) (\<lambda>coll_name.
     bindW (liftE (py_get data ''documents'' PNone)) (\<lambda>documents.
     bindW (liftE (py_get data ''ordered'' (PBool True))) (\<lambda>ordered.
     if \<not> truthy L db_name \<or> \<not> truthy L coll_name \<or> \<not> truthy L documents
     then respond (error_body ''database, collection, and documents are required'') 400 else
     bindW (get_client D cfg) (\<lambda>client.
     liftE (
       bindE (client_db_coll D client db_name coll_name) (\<lambda>collection.
       bindE (parse_json_extended L (if isinstance_dict documents then PList [documents] else documents))
         (\<lambda>documents.
       bindE (drv_insert_many D collection documents ordered) (\<lambda>inserted_ids.
       bindE (serialize_response L (PList inserted_ids)) (\<lambda>ids.
       Inr (jsonify (PDict [(''database'', db_name), (''collection'', coll_name),
                            (''inserted_count'', py_len inserted_ids), (''inserted_ids'', ids)]) 200))))))))))))"

definition insert_view :: "('x, 't) lib \<Rightarrow> ('x, 'o) driver \<Rightarrow> config \<Rightarrow> 'x request \<Rightarrow> 'x response action" where
  "insert_view L D cfg req = except_PyMongoError_Exception ''Insert error: '' (insert_try L D cfg req)"

subsection \<open>update (lines 322-374)\<close>

definition update_try :: "('x, 't) lib \<Rightarrow> ('x, 'o) driver \<Rightarrow> config \<Rightarrow> 'x request \<Rightarrow> 'x response action" where
  "update_try L D cfg req =
     bindW (liftE (get_json req)) (\<lambda>data.
     if \<not> truthy L data then respond (error_body ''Request body required'') 400 else
     bindW (liftE (py_get data ''database'' PNone)) (\<lambda>db_name.
     bindW (liftE (py_get data ''collection'' PNone)) (\<lambda>coll_name.
     bindW (liftE (py_get data ''filter'' (PDict []))) (\<lambda>filter_query.
     bindW (liftE (py_get data ''update'' PNone)) (\<lambda>update_doc.
     bindW (liftE (py_get data ''many'' (PBool False))) (\<lambda>many.
     bindW (liftE (py_get data ''upsert'' (PBool False))) (\<lambda>upsert.
     if \<not> truthy L db_name \<or> \<not> truthy L coll_name \<or> \<not> truthy L update_doc
     then respond (error_body ''database, collection, and update are required'') 400 else
     bindW (get_client D cfg) (\<lambda>client.
     liftE (
       bindE (client_db_coll D client db_name coll_name) (\<lambda>collection.
       bindE (parse_json_extended L filter_query) (\<lambda>filter_query.
       bindE (parse_json_extended L update_doc) (\<lambda>update_doc.
       bindE (if truthy L many
              then drv_update_many D collection filter_query update_doc upsert
              else drv_update_one D collection filter_query update_doc upsert) (\<lambda>result.
       bindE (if truthy L (upserted_id result)
              then serialize_response L (upserted_id result) else Inr PNone) (\<lambda>upserted.
       Inr (jsonify (PDict [(''database'', db_name), (''collection'', coll_name),
                            (''matched_count'', PInt (matched_count result)),
                            (''modified_count'', PInt (modified_count result)),
                            (''upserted_id'', upserted)]) 200)))))))))))))))"

definition update :: "('x, 't) lib \<Rightarrow> ('x, 'o) driver \<Rightarrow> config \<Rightarrow> 'x request \<Rightarrow> 'x response action" where
  "update L D cfg req = except_PyMongoError_Exception ''Update error: '' (update_try L D cfg req)"


subsection \<open>delete (lines 377-422)\<close>

definition delete_try :: "('x, 't) lib \<Rightarrow> ('x, 'o) driver \<Rightarrow> config \<Rightarrow> 'x request \<Rightarrow> 'x response action" where
  "delete_try L D cfg req =
     bindW (liftE (get_json req)) (\<lambda>data.
     if \<not> truthy L data then respond (error_body ''Request body required'') 400 else
     bindW (liftE (py_get data ''database'' PNone)) (\<lambda>db_name.
     bindW (liftE (py_get data ''collection'' PNone)) (\<lambda>coll_name.
     bindW (liftE (py_get data ''filter'' (PDict []))) (\<lambda>filter_query.
     bindW (liftE (py_get data ''many'' (PBool False))) (\<lambda>many.
     if \<not> truthy L db_name \<or> \<not> truthy L coll_name
     then respond (error_body ''database and collection are required'') 400 else
     bindW (get_client D cfg) (\<lambda>client.
     liftE (
       bindE (client_db_coll D client db_name coll_name) (\<lambda>collection.
       bindE (parse_json_extended L filter_query) (\<lambda>filter_query.
       bindE (if truthy L many
              then drv_delete_many D collection filter_query
              else drv_delete_one D collection filter_query) (\<lambda>deleted_count.
       Inr (jsonify (PDict [(''database'', db_name), (''collection'', coll_name),
                            (''deleted_count'', PInt deleted_count)]) 200)))))))))))"

definition delete :: "('x, 't) lib \<Rightarrow> ('x, 'o) driver \<Rightarrow> config \<Rightarrow> 'x request \<Rightarrow> 'x response action" where
  "delete L D cfg req = except_PyMongoError_Exception ''Delete error: '' (delete_try L D cfg req)"

subsection \<open>raw command (lines 425-461)\<close>

text \<open>\<^verbatim>\<open>database.command(command)\<close> leaves pymongo's second argument at its default, 1.\<close>

definition run_command_try :: "('x, 't) lib \<Rightarrow> ('x, 'o) driver \<Rightarrow> config \<Rightarrow> 'x request \<Rightarrow> 'x response action" where
  "run_command_try L D cfg req =
     bindW (liftE (get_json req)) (\<lambda>data.
     if \<not> truthy L data then respond (error_body ''Request body required'') 400 else
     bindW (liftE (py_get data ''database'' (PStr ''admin''))) (\<lambda>db_name.
     bindW (liftE (py_get data ''command'' PNone)) (\<lambda>command.
     if \<not> truthy L command then respond (error_body ''command is required'') 400 else
     bindW (get_client D cfg) (\<lambda>client.
     liftE (
       bindE (drv_database D client db_name) (\<lambda>database.
       bindE (parse_json_extended L command) (\<lambda>command.
       bindE (drv_command D database command (PInt 1)) (\<lambda>result.
       bindE (serialize_response L result) (\<lambda>res.
       Inr (jsonify (PDict [(''database'', db_name), (''result'', res)]) 200))))))))))"

definition run_command :: "('x, 't) lib \<Rightarrow> ('x, 'o) driver \<Rightarrow> config \<Rightarrow> 'x request \<Rightarrow> 'x response action" where
  "run_command L D cfg req =
     except_PyMongoError_Exception ''Command error: '' (run_command_try L D cfg req)"

subsection \<open>count (lines 464-478)\<close>

definition count_documents_try ::
  "('x, 'o) driver \<Rightarrow> config \<Rightarrow> string \<Rightarrow> string \<Rightarrow> 'x response action" where
  "count_documents_try D cfg db collection =
     bindW (get_client D cfg) (\<lambda>client.
     liftE (
       bindE (client_db_coll D client (PStr db) (PStr collection)) (\<lambda>coll.
       bindE (drv_estimated_document_count D coll) (\<lambda>cnt.
       Inr (jsonify (PDict [(''database'', PStr db), (''collection'', PStr collection),
                            (''count'', PInt cnt)]) 200)))))"

definition count_documents ::
  "('x, 'o) driver \<Rightarrow> config \<Rightarrow> string \<Rightarrow> string \<Rightarrow> 'x response action" where
  "count_documents D cfg db collection = except_PyMongoError (count_documents_try D cfg db collection)"

subsection \<open>list indexes (lines 481-495)\<close>

definition list_indexes_try ::
  "('x, 't) lib \<Rightarrow> ('x, 'o) driver \<Rightarrow> config \<Rightarrow> string \<Rightarrow> string \<Rightarrow> 'x response action" where
  "list_indexes_try L D cfg db collection =
     bindW (get_client D cfg) (\<lambda>client.
     liftE (
       bindE (client_db_coll D client (PStr db) (PStr collection)) (\<lambda>coll.
       bindE (drv_list_indexes D coll) (\<lambda>indexes.
       bindE (serialize_response L (PList indexes)) (\<lambda>idx.
       Inr (jsonify (PDict [(''database'', PStr db), (''collection'', PStr collection),
                            (''indexes'', idx)]) 200))))))"

definition list_indexes ::
  "('x, 't) lib \<Rightarrow> ('x, 'o) driver \<Rightarrow> config \<Rightarrow> string \<Rightarrow> string \<Rightarrow> 'x response action" where
  "list_indexes L D cfg db collection = except_PyMongoError (list_indexes_try L D cfg db collection)"

subsection \<open>sample (lines 498-539)\<close>

definition sample_try :: "('x, 't) lib \<Rightarrow> ('x, 'o) driver \<Rightarrow> config \<Rightarrow> 'x request \<Rightarrow> 'x response action" where
  "sample_try L D cfg req =
     bindW (liftE (get_json req)) (\<lambda>data.
     if \<not> truthy L data then respond (error_body ''Request body required'') 400 else
     bindW (liftE (py_get data ''database'' PNone)) (\<lambda>db_name.
     bindW (liftE (py_get data ''collection'' PNone)) (\<lambda>coll_name.
     bindW (liftE (py_get data ''size'' (PInt 5))) (\<lambda>size.
     if \<not> truthy L db_name \<or> \<not> truthy L coll_name
     then respond (error_body ''database and collection are required'') 400 else
     bindW (get_client D cfg) (\<lambda>client.
     liftE (
       bindE (client_db_coll D client db_name coll_name) (\<lambda>collection.
       bindE (drv_aggregate D collection
                (PList [PDict [(''$sample'', PDict [(''size'', size)])]])) (\<lambda>results.
       bindE (serialize_response L (PList results)) (\<lambda>docs.
       Inr (jsonify (PDict [(''database'', db_name), (''collection'', coll_name),
                            (''count'', py_len results), (''documents'', docs)]) 200))))))))))"

definition sample :: "('x, 't) lib \<Rightarrow> ('x, 'o) driver \<Rightarrow> config \<Rightarrow> 'x request \<Rightarrow> 'x response action" where
  "sample L D cfg req = except_PyMongoError_Exception ''Sample error: '' (sample_try L D cfg req)"

section \<open>Routing\<close>

text \<open>
  The routes of the application with the arguments Flask takes from the path. Every view
  but the health check is wrapped in \<^verbatim>\<open>@require_api_key\<close>.
\<close>

datatype route =
    Index
  | Databases
  | Collections string
  | Query
  | Aggregate
  | Insert
  | Update
  | Delete
  | Command
  | Count string string
  | Indexes string string
  | Sample

fun view :: "('x, 't) lib \<Rightarrow> ('x, 'o) driver \<Rightarrow> config \<Rightarrow> route \<Rightarrow> 'x request \<Rightarrow> 'x response action" where
  "view L D cfg Index = (\<lambda>req. liftE (Inr (index ())))"
| "view L D cfg Databases = (\<lambda>req. list_databases D cfg)"
| "view L D cfg (Collections db) = (\<lambda>req. list_collections D cfg db)"
| "view L D cfg Query = query L D cfg"
| "view L D cfg Aggregate = aggregate L D cfg"
| "view L D cfg Insert = insert_view L D cfg"
| "view L D cfg Update = update L D cfg"
| "view L D cfg Delete = delete L D cfg"
| "view L D cfg Command = run_command L D cfg"
| "view L D cfg (Count db collection) = (\<lambda>req. count_documents D cfg db collection)"
| "view L D cfg (Indexes db collection) = (\<lambda>req. list_indexes L D cfg db collection)"
| "view L D cfg Sample = sample L D cfg"



definition app :: "('x, 't) lib \<Rightarrow> ('x, 'o) driver \<Rightarrow> config \<Rightarrow> route \<Rightarrow> 'x request \<Rightarrow> 'x response action" where
  "app L D cfg r req =
     (if r = Index then view L D cfg r req else require_api_key cfg (view L D cfg r) req)"


section \<open>The limit of a find\<close>

text \<open>
  \<^verbatim>\<open>limit = data.get("limit", 100)\<close> and \<^verbatim>\<open>if limit: cursor = cursor.limit(limit)\<close>:
  a false value (0, null, an absent key never, since the default is 100) leaves the
  cursor without a limit. A Python bool is an int. pymongo sends the absolute value of a
  non-zero limit to the server, so the bound on the result is \<open>\<bar>n\<bar>\<close>.
\<close>

fun py_int :: "'x pyval \<Rightarrow> int option" where
  "py_int (PInt n) = Some n"
| "py_int (PBool b) = Some (if b then 1 else 0)"
| "py_int v = None"

definition effective_limit :: "('x, 't) lib \<Rightarrow> 'x request \<Rightarrow> nat option" where
  "effective_limit L req =
     (case bindE (get_json req) (\<lambda>data. py_get data ''limit'' (PInt 100)) of
        Inl e \<Rightarrow> None
      | Inr limit \<Rightarrow> if truthy L limit then map_option (\<lambda>n. nat \<bar>n\<bar>) (py_int limit) else None)"

section \<open>Concurrent callers of \<open>get_client\<close>\<close>

text \<open>
  The server is started with \<^verbatim>\<open>threaded=True\<close> (line 567), so two requests can be
  inside \<^verbatim>\<open>get_client\<close> at once. A thread is at line 66 (the test), at line 67 (the
  construction and the assignment) or at line 68 (the return), or it has left the
  function. One step runs one line; the interpreter may switch threads between lines.
  The source takes no lock.
\<close>

datatype pc = L66 | L67 | L68 | Returned "nat option" | Raised exn

fun thread_step :: "('x, 'o) driver \<Rightarrow> config \<Rightarrow> pc \<Rightarrow> world \<Rightarrow> pc \<times> world" where
  "thread_step D cfg L66 w = (if client w = None then (L67, w) else (L68, w))"
| "thread_step D cfg L67 w =
     (case MongoClient D (mongo_uri cfg) of
        Some e \<Rightarrow> (Raised e, w)
      | None \<Rightarrow> (L68, w\<lparr>client := Some (created w), created := Suc (created w)\<rparr>))"
| "thread_step D cfg L68 w = (Returned (client w), w)"
| "thread_step D cfg (Returned c) w = (Returned c, w)"
| "thread_step D cfg (Raised e) w = (Raised e, w)"

text \<open>A schedule names the thread that takes the next step.\<close>

fun run_threads :: "('x, 'o) driver \<Rightarrow> config \<Rightarrow> nat list \<Rightarrow> pc list \<times> world \<Rightarrow> pc list \<times> world" where
  "run_threads D cfg [] st = st"
| "run_threads D cfg (i # sched) (pcs, w) =
     (if i < length pcs
      then (case thread_step D cfg (pcs ! i) w of
              (p', w') \<Rightarrow> run_threads D cfg sched (pcs[i := p'], w'))
      else run_threads D cfg sched (pcs, w))"


section \<open>An in-memory driver and a small codec\<close>

text \<open>
  A reference instance of the two parameters, used to run the model on concrete
  requests. The store maps (database, collection) to the documents it holds; a filter
  matches a document that has each of the filter's fields with the same value, so
  \<^verbatim>\<open>{}\<close> matches every document. A cursor holds the matching documents, the number
  to skip and the limit (0: none; a negative limit bounds the result by its absolute
  value). The codec writes the BSON object \<open>n\<close> as \<^verbatim>\<open>{"$oid": n}\<close>.
\<close>

datatype 'x mem_obj =
    MDatabase string
  | MCollection string string
  | MCursor "'x pyval list" nat int

type_synonym 'x store = "((string \<times> string) \<times> 'x pyval list) list"

definition not_an_object :: exn where
  "not_an_object = OtherException ''wrong type of object''"

definition mem_docs :: "'x store \<Rightarrow> 'x mem_obj \<Rightarrow> exn + 'x pyval list" where
  "mem_docs store obj =
     (case obj of
        MCollection d c \<Rightarrow> Inr (case map_of store (d, c) of None \<Rightarrow> [] | Some ds \<Rightarrow> ds)
      | _ \<Rightarrow> Inl not_an_object)"

definition doc_matches :: "'x pyval \<Rightarrow> 'x pyval \<Rightarrow> bool" where
  "doc_matches flt doc =
     (case (flt, doc) of
        (PDict fkvs, PDict dkvs) \<Rightarrow> list_all (\<lambda>kv. map_of dkvs (fst kv) = Some (snd kv)) fkvs
      | _ \<Rightarrow> False)"

definition mem_matching :: "'x store \<Rightarrow> 'x mem_obj \<Rightarrow> 'x pyval \<Rightarrow> exn + 'x pyval list" where
  "mem_matching store obj flt = bindE (mem_docs store obj) (\<lambda>ds. Inr (filter (doc_matches flt) ds))"

definition mem_name :: "'x pyval \<Rightarrow> exn + string" where
  "mem_name v = (case v of PStr n \<Rightarrow> Inr n | _ \<Rightarrow> Inl (OtherException ''name must be an instance of str''))"

definition mem_skip :: "'x mem_obj \<Rightarrow> 'x pyval \<Rightarrow> exn + 'x mem_obj" where
  "mem_skip obj v =
     (case (obj, v) of
        (MCursor ds k l, PInt n) \<Rightarrow>
          if n < 0 then Inl (OtherException ''skip must be >= 0'') else Inr (MCursor ds (nat n) l)
      | (MCursor ds k l, _) \<Rightarrow> Inl (OtherException ''skip must be an integer'')
      | _ \<Rightarrow> Inl not_an_object)"

definition mem_limit :: "'x mem_obj \<Rightarrow> 'x pyval \<Rightarrow> exn + 'x mem_obj" where
  "mem_limit obj v =
     (case (obj, v) of
        (MCursor ds k l, PInt n) \<Rightarrow> Inr (MCursor ds k n)
      | (MCursor ds k l, _) \<Rightarrow> Inl (OtherException ''limit must be an integer'')
      | _ \<Rightarrow> Inl not_an_object)"

definition mem_list :: "'x mem_obj \<Rightarrow> exn + 'x pyval list" where
  "mem_list obj =
     (case obj of
        MCursor ds k l \<Rightarrow> Inr (if l = 0 then drop k ds else take (nat \<bar>l\<bar>) (drop k ds))
      | _ \<Rightarrow> Inl not_an_object)"

definition mem_insert_many :: "'x mem_obj \<Rightarrow> nat pyval \<Rightarrow> exn + nat pyval list" where
  "mem_insert_many obj docs =
     (case (obj, docs) of
        (MCollection d c, PList ds) \<Rightarrow>
          if ds = [] then Inl (OtherException ''documents must be a non-empty list'')
          else Inr (map PExt [0..<length ds])
      | _ \<Rightarrow> Inl (OtherException ''documents must be a non-empty list''))"

definition mem_update :: "bool \<Rightarrow> 'x store \<Rightarrow> 'x mem_obj \<Rightarrow> 'x pyval \<Rightarrow> exn + 'x update_result" where
  "mem_update many store obj flt =
     bindE (mem_matching store obj flt) (\<lambda>ds.
       let n = int (if many then length ds else min 1 (length ds))
       in Inr \<lparr>matched_count = n, modified_count = n, upserted_id = PNone\<rparr>)"

definition mem_delete :: "bool \<Rightarrow> 'x store \<Rightarrow> 'x mem_obj \<Rightarrow> 'x pyval \<Rightarrow> exn + int" where
  "mem_delete many store obj flt =
     bindE (mem_matching store obj flt) (\<lambda>ds.
       Inr (int (if many then length ds else min 1 (length ds))))"

definition mem_command :: "'x store \<Rightarrow> 'x mem_obj \<Rightarrow> 'x pyval \<Rightarrow> 'x pyval \<Rightarrow> exn + 'x pyval" where
  "mem_command store obj cmd v =
     (case (obj, v) of
        (MDatabase d, PStr c) \<Rightarrow>
          if cmd = PStr ''collStats''
          then (case map_of store (d, c) of
                  None \<Rightarrow> Inl (PyMongoError ''ns not found'')
                | Some ds \<Rightarrow> Inr (PDict [(''count'', PInt (int (length ds)))]))
          else Inr (PDict [(''ok'', PFloat 1)])
      | (MDatabase d, _) \<Rightarrow> Inr (PDict [(''ok'', PFloat 1)])
      | _ \<Rightarrow> Inl not_an_object)"

definition mem_driver :: "nat store \<Rightarrow> (nat, nat mem_obj) driver" where
  "mem_driver store = \<lparr>
     MongoClient = (\<lambda>uri. None),
     drv_list_databases = (\<lambda>c. Inr (map (\<lambda>n. PDict [(''name'', PStr n)]) (remdups (map (\<lambda>e. fst (fst e)) store)))),
     drv_database = (\<lambda>c v. bindE (mem_name v) (\<lambda>n. Inr (MDatabase n))),
     drv_collection = (\<lambda>obj v. case obj of
         MDatabase d \<Rightarrow> bindE (mem_name v) (\<lambda>n. Inr (MCollection d n))
       | _ \<Rightarrow> Inl not_an_object),
     drv_list_collection_names = (\<lambda>obj. case obj of
         MDatabase d \<Rightarrow> Inr (map (\<lambda>e. PStr (snd (fst e))) (filter (\<lambda>e. fst (fst e) = d) store))
       | _ \<Rightarrow> Inl not_an_object),
     drv_command = mem_command store,
     drv_find = (\<lambda>obj flt proj. bindE (mem_matching store obj flt) (\<lambda>ds. Inr (MCursor ds 0 0))),
     drv_sort = (\<lambda>obj v. Inr obj),
     drv_skip = mem_skip,
     drv_limit = mem_limit,
     drv_list = mem_list,
     drv_aggregate = (\<lambda>obj pipeline. mem_docs store obj),
     drv_insert_many = (\<lambda>obj docs ordered. mem_insert_many obj docs),
     drv_update_many = (\<lambda>obj flt upd upsert. mem_update True store obj flt),
     drv_update_one = (\<lambda>obj flt upd upsert. mem_update False store obj flt),
     drv_delete_many = mem_delete True store,
     drv_delete_one = mem_delete False store,
     drv_estimated_document_count = (\<lambda>obj. bindE (mem_docs store obj) (\<lambda>ds. Inr (int (length ds)))),
     drv_list_indexes = (\<lambda>obj. bindE (mem_docs store obj) (\<lambda>ds. Inr [PDict [(''name'', PStr ''_id_'')]]))
   \<rparr>"

primrec oid_encode :: "nat pyval \<Rightarrow> nat pyval" where
  "oid_encode PNone = PNone"
| "oid_encode (PBool b) = PBool b"
| "oid_encode (PInt n) = PInt n"
| "oid_encode (PFloat r) = PFloat r"
| "oid_encode (PStr s) = PStr s"
| "oid_encode (PList xs) = PList (map oid_encode xs)"
| "oid_encode (PDict kvs) = PDict (map (map_prod id oid_encode) kvs)"
| "oid_encode (PExt n) = PDict [(''$oid'', PInt (int n))]"

definition as_oid :: "(string \<times> nat pyval) list \<Rightarrow> nat option" where
  "as_oid kvs =
     (case kvs of
        [(k, PInt n)] \<Rightarrow> if k = ''$oid'' \<and> 0 \<le> n then Some (nat n) else None
      | _ \<Rightarrow> None)"

primrec oid_decode :: "nat pyval \<Rightarrow> nat pyval" where
  "oid_decode PNone = PNone"
| "oid_decode (PBool b) = PBool b"
| "oid_decode (PInt n) = PInt n"
| "oid_decode (PFloat r) = PFloat r"
| "oid_decode (PStr s) = PStr s"
| "oid_decode (PList xs) = PList (map oid_decode xs)"
| "oid_decode (PDict kvs) =
     (case as_oid kvs of
        Some n \<Rightarrow> PExt n
      | None \<Rightarrow> PDict (map (map_prod id oid_decode) kvs))"
| "oid_decode (PExt n) = PExt n"

definition mini_lib :: "(nat, nat pyval) lib" where
  "mini_lib = \<lparr>
     json_util_loads = (\<lambda>t. Inr (oid_decode t)),
     json_util_dumps = (\<lambda>v. Inr (oid_encode v)),
     json_loads = Inr,
     json_dumps = Inr,
     ext_truthy = (\<lambda>n. True)
   \<rparr>"

definition cfg0 :: config where
  "cfg0 = \<lparr>mongo_uri = MONGO_URI None, api_key = API_KEY (Some ''s3cret'') ''generated''\<rparr>"

definition post :: "string option \<Rightarrow> 'x pyval \<Rightarrow> 'x request" where
  "post key data = \<lparr>headers = (\<lambda>h. if h = ''X-API-Key'' then key else None), get_json = Inr data\<rparr>"


text \<open>The collection of the find scenario: database \<^verbatim>\<open>d\<close>, collection \<^verbatim>\<open>c\<close>, five documents.\<close>

definition store5 :: "nat store" where
  "store5 = [((''d'', ''c''),
     [PDict [(''_id'', PExt 1), (''a'', PInt 1)],
      PDict [(''_id'', PExt 2), (''a'', PInt 2)],
      PDict [(''_id'', PExt 3), (''a'', PInt 3)],
      PDict [(''_id'', PExt 4), (''a'', PInt 4)],
      PDict [(''_id'', PExt 5), (''a'', PInt 5)]])]"

definition dc :: "(string \<times> nat pyval) list" where
  "dc = [(''database'', PStr ''d''), (''collection'', PStr ''c'')]"


text \<open>The same request with another body.\<close>

definition with_body :: "'x request \<Rightarrow> 'x pyval \<Rightarrow> 'x request" where
  "with_body req data = req\<lparr>get_json := Inr data\<rparr>"







section \<open>How each write and read builds its answer\<close>

text \<open>
  The closing statements of five views, named so that a theorem can say what a view
  does with the result of its driver call: lines 209-216 (find), 310-315 (insert),
  364-370 (update), 414-418 (delete) and 528-535 (sample).
\<close>

definition find_reply ::
  "('x, 't) lib \<Rightarrow> ('x, 'o) driver \<Rightarrow> 'x pyval \<Rightarrow> 'x pyval \<Rightarrow> 'o \<Rightarrow> exn + 'x response" where
  "find_reply L D db_name coll_name cursor =
     bindE (drv_list D cursor) (\<lambda>documents.
     bindE (serialize_response L (PList documents)) (\<lambda>docs.
     Inr (jsonify (PDict [(''database'', db_name), (''collection'', coll_name),
                          (''count'', py_len documents), (''documents'', docs)]) 200)))"

definition insert_reply :: "('x, 't) lib \<Rightarrow> 'x pyval \<Rightarrow> 'x pyval \<Rightarrow> 'x pyval list \<Rightarrow> exn + 'x response" where
  "insert_reply L db_name coll_name inserted_ids =
     bindE (serialize_response L (PList inserted_ids)) (\<lambda>ids.
     Inr (jsonify (PDict [(''database'', db_name), (''collection'', coll_name),
                          (''inserted_count'', py_len inserted_ids), (''inserted_ids'', ids)]) 200))"

definition update_reply :: "('x, 't) lib \<Rightarrow> 'x pyval \<Rightarrow> 'x pyval \<Rightarrow> 'x update_result \<Rightarrow> exn + 'x response" where
  "update_reply L db_name coll_name result =
     bindE (if truthy L (upserted_id result)
            then serialize_response L (upserted_id result) else Inr PNone) (\<lambda>upserted.
     Inr (jsonify (PDict [(''database'', db_name), (''collection'', coll_name),
                          (''matched_count'', PInt (matched_count result)),
                          (''modified_count'', PInt (modified_count result)),
                          (''upserted_id'', upserted)]) 200))"

definition delete_reply :: "'x pyval \<Rightarrow> 'x pyval \<Rightarrow> int \<Rightarrow> exn + 'x response" where
  "delete_reply db_name coll_name deleted_count =
     Inr (jsonify (PDict [(''database'', db_name), (''collection'', coll_name),
                          (''deleted_count'', PInt deleted_count)]) 200)"

definition sample_reply :: "('x, 't) lib \<Rightarrow> 'x pyval \<Rightarrow> 'x pyval \<Rightarrow> 'x pyval list \<Rightarrow> exn + 'x response" where
  "sample_reply L db_name coll_name results =
     bindE (serialize_response L (PList results)) (\<lambda>docs.
     Inr (jsonify (PDict [(''database'', db_name), (''collection'', coll_name),
                          (''count'', py_len results), (''documents'', docs)]) 200))"

text \<open>
  A driver that answers every call with a record of the arguments it was given, so that
  a response shows which values the view passed on.
\<close>

definition echo_driver :: "(nat, nat pyval) driver" where
  "echo_driver = \<lparr>
     MongoClient = (\<lambda>uri. None),
     drv_list_databases = (\<lambda>c. Inr [PDict [(''name'', PStr ''d'')]]),
     drv_database = (\<lambda>c v. Inr (PDict [(''database'', v)])),
     drv_collection = (\<lambda>obj v. Inr (PDict [(''collection'', v)])),
     drv_list_collection_names = (\<lambda>obj. Inr [PStr ''c'']),
     drv_command = (\<lambda>obj cmd v. Inr (PDict [(''command'', cmd), (''value'', v)])),
     drv_find = (\<lambda>obj flt proj. Inr (PDict [(''find'', flt), (''projection'', proj)])),
     drv_sort = (\<lambda>cur v. Inr (PDict [(''sort'', v), (''of'', cur)])),
     drv_skip = (\<lambda>cur v. Inr (PDict [(''skip'', v), (''of'', cur)])),
     drv_limit = (\<lambda>cur v. Inr (PDict [(''limit'', v), (''of'', cur)])),
     drv_list = (\<lambda>cur. Inr [cur]),
     drv_aggregate = (\<lambda>obj pipeline. Inr [PDict [(''pipeline'', pipeline)]]),
     drv_insert_many = (\<lambda>obj docs ordered. Inr [PDict [(''documents'', docs), (''ordered'', ordered)]]),
     drv_update_many = (\<lambda>obj flt upd upsert.
        Inr \<lparr>matched_count = 2, modified_count = 2, upserted_id = PDict [(''upsert'', upsert)]\<rparr>),
     drv_update_one = (\<lambda>obj flt upd upsert.
        Inr \<lparr>matched_count = 1, modified_count = 1, upserted_id = PDict [(''upsert'', upsert)]\<rparr>),
     drv_delete_many = (\<lambda>obj flt. Inr 2),
     drv_delete_one = (\<lambda>obj flt. Inr 1),
     drv_estimated_document_count = (\<lambda>obj. Inr 0),
     drv_list_indexes = (\<lambda>obj. Inr [PDict [(''name'', PStr ''_id_'')]])
   \<rparr>"

text \<open>A body with every required field and no optional one.\<close>

definition full_body :: "(string \<times> nat pyval) list" where
  "full_body = dc @ [(''documents'', PDict [(''a'', PInt 1)]),
                     (''update'', PDict [(''$set'', PDict [(''a'', PInt 2)])]),
                     (''command'', PDict [(''ping'', PInt 1)])]"

section \<open>Basic facts\<close>

lemma bindE_Inl [simp]: "bindE (Inl e) f = Inl e"
  by (simp add: bindE_def)

lemma bindE_Inr [simp]: "bindE (Inr a) f = f a"
  by (simp add: bindE_def)

lemma bindE_eq_Inr: "bindE m f = Inr b \<longleftrightarrow> (\<exists>a. m = Inr a \<and> f a = Inr b)"
  by (cases m) simp_all

lemma liftE_apply: "liftE x w = (x, w)"
  by (simp add: liftE_def)

lemma bindW_liftE_Inr [simp]: "bindW (liftE (Inr a)) f = f a"
  by (rule ext) (simp add: bindW_def liftE_def)

lemma bindW_liftE_Inl [simp]: "bindW (liftE (Inl e)) f = liftE (Inl e)"
  by (rule ext) (simp add: bindW_def liftE_def)

lemma respond_apply: "respond b st w = (Inr (jsonify b st), w)"
  by (simp add: respond_def liftE_def)

lemma get_client_drv_limit [simp]: "get_client (D\<lparr>drv_limit := other\<rparr>) cfg = get_client D cfg"
  by (rule ext) (simp add: get_client_def split: option.splits)

lemma bindW_eq_Inr:
  "bindW m f w = (Inr b, w') \<longleftrightarrow> (\<exists>a w1. m w = (Inr a, w1) \<and> f a w1 = (Inr b, w'))"
  by (cases "m w"; cases "fst (m w)") (auto simp: bindW_def)

lemma status_jsonify [simp]: "status (jsonify b st) = st" "body (jsonify b st) = b"
  by (simp_all add: jsonify_def)

lemma get_json_with_body [simp]: "get_json (with_body req data) = Inr data"
  by (simp add: with_body_def)

text \<open>
  The round trip through the two wrappers is the round trip through the four library
  functions; the bridge adds nothing of its own to it.
\<close>

lemma codec_round_trip_unfolded:
  "bindE (serialize_response L v) (parse_json_extended L)
     = bindE (json_util_dumps L v) (\<lambda>t.
       bindE (json_loads L t) (\<lambda>j.
       bindE (json_dumps L j) (json_util_loads L)))"
  by (simp add: serialize_response_def parse_json_extended_def bindE_def split: sum.splits)

text \<open>A response with status 200 comes out of the \<^verbatim>\<open>try\<close> block, never out of an \<^verbatim>\<open>except\<close> clause.\<close>

lemma except_all_200:
  "except_PyMongoError_Exception p m w = (Inr r, w') \<Longrightarrow> status r = 200 \<Longrightarrow> m w = (Inr r, w')"
  by (auto simp: except_PyMongoError_Exception_def split: prod.splits sum.splits exn.splits)

lemma except_all_cases:
  "except_PyMongoError_Exception p m w = (Inr r, w') \<Longrightarrow>
     m w = (Inr r, w') \<or> (\<exists>msg. r = jsonify (error_body msg) 500) \<or> (\<exists>msg. r = jsonify (error_body msg) 400)"
  by (auto simp: except_PyMongoError_Exception_def split: prod.splits sum.splits exn.splits)



lemma bindW_get_client:
  "get_client D cfg w = (Inr c, w1) \<Longrightarrow> bindW (get_client D cfg) f w = f c w1"
  by (simp add: bindW_def)

lemma except_all_liftE:
  "m w = (x, w1) \<Longrightarrow> except_PyMongoError_Exception p m w = except_PyMongoError_Exception p (liftE x) w1"
  by (simp add: except_PyMongoError_Exception_def liftE_def)

lemma guard_200:
  "status resp = 200 \<Longrightarrow>
     ((if c then respond b 400 else m) w = (Inr resp, w')) = (\<not> c \<and> m w = (Inr resp, w'))"
  by (auto simp: respond_apply)


lemmas inv_simps = bindW_eq_Inr bindE_eq_Inr liftE_apply respond_apply





text \<open>What a view that answers 200 has done, call by call.\<close>

lemma query_try_200:
  assumes "query_try L D cfg req w = (Inr resp, w')" and "status resp = 200"
  shows "\<exists>data db_name coll_name client collection flt filter_query projection sort lim skip c0 c1 c2 c3 documents docs.
           get_json req = Inr data
         \<and> py_get data ''database'' PNone = Inr db_name
         \<and> py_get data ''collection'' PNone = Inr coll_name
         \<and> get_client D cfg w = (Inr client, w')
         \<and> client_db_coll D client db_name coll_name = Inr collection
         \<and> py_get data ''filter'' (PDict []) = Inr flt
         \<and> parse_json_extended L flt = Inr filter_query
         \<and> py_get data ''projection'' PNone = Inr projection
         \<and> py_get data ''sort'' PNone = Inr sort
         \<and> py_get data ''limit'' (PInt 100) = Inr lim
         \<and> py_get data ''skip'' (PInt 0) = Inr skip
         \<and> drv_find D collection filter_query projection = Inr c0
         \<and> cursor_if L sort (drv_sort D) c0 = Inr c1
         \<and> cursor_if L skip (drv_skip D) c1 = Inr c2
         \<and> cursor_if L lim (drv_limit D) c2 = Inr c3
         \<and> drv_list D c3 = Inr documents
         \<and> serialize_response L (PList documents) = Inr docs
         \<and> resp = jsonify (PDict [(''database'', db_name), (''collection'', coll_name),
                                   (''count'', py_len documents), (''documents'', docs)]) 200"
  using assms unfolding query_try_def
  by (auto simp: inv_simps guard_200 split del: if_split)











text \<open>What a view does once its parameters are read and its collection is at hand.\<close>

lemma query_try_after_skip:
  assumes body: "get_json req = Inr (PDict kvs)"
    and db: "map_of kvs ''database'' = Some db_name" "truthy L db_name"
    and coll: "map_of kvs ''collection'' = Some coll_name" "truthy L coll_name"
    and client: "get_client D cfg w = (Inr c, w')"
    and collection: "client_db_coll D c db_name coll_name = Inr collection"
    and flt: "py_get (PDict kvs) ''filter'' (PDict []) = Inr flt"
    and parse: "parse_json_extended L flt = Inr filter_query"
    and proj: "py_get (PDict kvs) ''projection'' PNone = Inr projection"
    and find: "drv_find D collection filter_query projection = Inr c0"
    and sort: "py_get (PDict kvs) ''sort'' PNone = Inr srt"
    and sorted: "cursor_if L srt (drv_sort D) c0 = Inr c1"
    and skip: "py_get (PDict kvs) ''skip'' (PInt 0) = Inr skp"
    and skipped: "cursor_if L skp (drv_skip D) c1 = Inr c2"
    and lim: "py_get (PDict kvs) ''limit'' (PInt 100) = Inr lmt"
  shows "query_try L D cfg req w
       = (bindE (cursor_if L lmt (drv_limit D) c2) (find_reply L D db_name coll_name), w')"
proof -
  from db coll have kvs: "kvs \<noteq> []"
    by auto
  show ?thesis
    unfolding query_try_def find_reply_def
    using kvs db coll flt proj sort skip lim
    by (simp add: body bindW_get_client [OF client] liftE_apply collection parse find sorted skipped)
qed

lemma insert_try_after_parse:
  assumes body: "get_json req = Inr (PDict kvs)"
    and db: "map_of kvs ''database'' = Some db_name" "truthy L db_name"
    and coll: "map_of kvs ''collection'' = Some coll_name" "truthy L coll_name"
    and documents: "map_of kvs ''documents'' = Some documents" "truthy L documents"
    and ordered: "py_get (PDict kvs) ''ordered'' (PBool True) = Inr ordered"
    and client: "get_client D cfg w = (Inr c, w')"
    and collection: "client_db_coll D c db_name coll_name = Inr collection"
    and parse: "parse_json_extended L (if isinstance_dict documents then PList [documents] else documents) = Inr docs"
  shows "insert_try L D cfg req w
       = (bindE (drv_insert_many D collection docs ordered) (insert_reply L db_name coll_name), w')"
proof -
  from db have kvs: "kvs \<noteq> []"
    by auto
  show ?thesis
    unfolding insert_try_def insert_reply_def
    using kvs db coll documents ordered
    by (simp add: body bindW_get_client [OF client] liftE_apply collection parse)
qed

lemma update_try_after_parse:
  assumes body: "get_json req = Inr (PDict kvs)"
    and db: "map_of kvs ''database'' = Some db_name" "truthy L db_name"
    and coll: "map_of kvs ''collection'' = Some coll_name" "truthy L coll_name"
    and upd: "map_of kvs ''update'' = Some upd" "truthy L upd"
    and flt: "py_get (PDict kvs) ''filter'' (PDict []) = Inr flt"
    and many: "py_get (PDict kvs) ''many'' (PBool False) = Inr many"
    and upsert: "py_get (PDict kvs) ''upsert'' (PBool False) = Inr upsert"
    and client: "get_client D cfg w = (Inr c, w')"
    and collection: "client_db_coll D c db_name coll_name = Inr collection"
    and parse: "parse_json_extended L flt = Inr filter_query"
    and parse_upd: "parse_json_extended L upd = Inr update_doc"
  shows "update_try L D cfg req w
       = (bindE (if truthy L many
                 then drv_update_many D collection filter_query update_doc upsert
                 else drv_update_one D collection filter_query update_doc upsert)
            (update_reply L db_name coll_name), w')"
proof -
  from db have kvs: "kvs \<noteq> []"
    by auto
  show ?thesis
    unfolding update_try_def update_reply_def
    using kvs db coll upd flt many upsert
    by (simp add: body bindW_get_client [OF client] liftE_apply collection parse parse_upd)
qed

lemma delete_try_after_parse:
  assumes body: "get_json req = Inr (PDict kvs)"
    and db: "map_of kvs ''database'' = Some db_name" "truthy L db_name"
    and coll: "map_of kvs ''collection'' = Some coll_name" "truthy L coll_name"
    and flt: "py_get (PDict kvs) ''filter'' (PDict []) = Inr flt"
    and many: "py_get (PDict kvs) ''many'' (PBool False) = Inr many"
    and client: "get_client D cfg w = (Inr c, w')"
    and collection: "client_db_coll D c db_name coll_name = Inr collection"
    and parse: "parse_json_extended L flt = Inr filter_query"
  shows "delete_try L D cfg req w
       = (bindE (if truthy L many
                 then drv_delete_many D collection filter_query
                 else drv_delete_one D collection filter_query)
            (delete_reply db_name coll_name), w')"
proof -
  from db have kvs: "kvs \<noteq> []"
    by auto
  show ?thesis
    unfolding delete_try_def delete_reply_def
    using kvs db coll flt many
    by (simp add: body bindW_get_client [OF client] liftE_apply collection parse)
qed

lemma sample_try_at_aggregate:
  assumes body: "get_json req = Inr (PDict kvs)"
    and db: "map_of kvs ''database'' = Some db_name" "truthy L db_name"
    and coll: "map_of kvs ''collection'' = Some coll_name" "truthy L coll_name"
    and size: "py_get (PDict kvs) ''size'' (PInt 5) = Inr sz"
    and client: "get_client D cfg w = (Inr c, w')"
    and collection: "client_db_coll D c db_name coll_name = Inr collection"
  shows "sample_try L D cfg req w
       = (bindE (drv_aggregate D collection (PList [PDict [(''$sample'', PDict [(''size'', sz)])]]))
            (sample_reply L db_name coll_name), w')"
proof -
  from db have kvs: "kvs \<noteq> []"
    by auto
  show ?thesis
    unfolding sample_try_def sample_reply_def
    using kvs db coll size
    by (simp add: body bindW_get_client [OF client] liftE_apply collection)
qed

subsection \<open>Facts about the in-memory driver and the small codec\<close>

lemmas run_defs = require_api_key_def cfg0_def API_KEY_def MONGO_URI_def post_def with_body_def
  bindW_def liftE_def respond_def jsonify_def error_body_def
  except_PyMongoError_Exception_def except_PyMongoError_def get_client_def world0_def
  client_db_coll_def mem_driver_def mini_lib_def parse_json_extended_def serialize_response_def
  cursor_if_def mem_matching_def mem_docs_def doc_matches_def mem_name_def mem_skip_def
  mem_limit_def mem_list_def mem_delete_def mem_insert_many_def mem_command_def
  py_len_def store5_def dc_def as_oid_def

lemmas echo_defs = cfg0_def API_KEY_def MONGO_URI_def post_def with_body_def
  bindW_def liftE_def respond_def jsonify_def error_body_def
  except_PyMongoError_Exception_def except_PyMongoError_def get_client_def world0_def
  client_db_coll_def echo_driver_def mini_lib_def parse_json_extended_def serialize_response_def
  cursor_if_def py_len_def dc_def full_body_def as_oid_def

lemma mem_delete_one_le: "drv_delete_one (mem_driver store) coll flt = Inr n \<Longrightarrow> n \<le> 1"
  by (auto simp: mem_driver_def mem_delete_def bindE_eq_Inr)

lemma mini_lib_list: "serialize_response mini_lib (PList xs) = Inr j \<Longrightarrow> \<exists>ys. j = PList ys \<and> length ys = length xs"
  by (auto simp: serialize_response_def mini_lib_def)

lemma mem_limit_bound:
  "py_int v = Some n \<Longrightarrow> n \<noteq> 0 \<Longrightarrow> drv_limit (mem_driver store) c v = Inr c' \<Longrightarrow>
     drv_list (mem_driver store) c' = Inr xs \<Longrightarrow> length xs \<le> nat \<bar>n\<bar>"
  by (auto simp: mem_driver_def mem_limit_def mem_list_def split: mem_obj.splits pyval.splits if_splits)



section \<open>The auth gate\<close>

text \<open>
  Claim C1. On every protected endpoint a request whose \<^verbatim>\<open>X-API-Key\<close> header is
  absent or differs from the configured credential gets the 401 response with an
  \<^verbatim>\<open>{"error": ...}\<close> body; the result is the same for every wrapped view \<open>f\<close>, every
  library and every driver, and the world (the connection singleton) is unchanged, so
  the view has not run and no driver call was made. A request whose header equals the
  credential is handed to the view as it is. The credential is never empty (lines
  51-52), so an empty header is rejected like an absent one.
\<close>

theorem auth_gate:
  assumes "api_key cfg = API_KEY env token" and "token \<noteq> []"
  shows "(headers req ''X-API-Key'' \<noteq> Some (api_key cfg) \<longrightarrow>
            require_api_key cfg f req w
              = (Inr (jsonify (error_body ''Unauthorized - Invalid or missing API key'') 401), w)
          \<and> (r \<noteq> Index \<longrightarrow>
               app L D cfg r req w
                 = (Inr (jsonify (error_body ''Unauthorized - Invalid or missing API key'') 401), w)))
       \<and> (headers req ''X-API-Key'' = Some (api_key cfg) \<longrightarrow>
            require_api_key cfg f req w = f req w
          \<and> app L D cfg r req w = view L D cfg r req w)"
proof -
  have nonempty: "api_key cfg \<noteq> []"
    using assms by (simp add: API_KEY_def split: option.splits)
  show ?thesis
    using nonempty by (auto simp: require_api_key_def app_def Let_def respond_apply split: option.splits)
qed

theorem auth_gate_witness:
  "app mini_lib (mem_driver store5) cfg0 Query (post (Some ''wrong'') (PDict dc)) world0
     = (Inr \<lparr>status = 401, body = PDict [(''error'', PStr ''Unauthorized - Invalid or missing API key'')]\<rparr>, world0)
   \<and> app mini_lib (mem_driver store5) cfg0 Query (post None (PDict dc)) world0
     = (Inr \<lparr>status = 401, body = PDict [(''error'', PStr ''Unauthorized - Invalid or missing API key'')]\<rparr>, world0)
   \<and> app mini_lib (mem_driver store5) cfg0 Query (post (Some ''s3cret'') (PDict dc)) world0
     = query mini_lib (mem_driver store5) cfg0 (post (Some ''s3cret'') (PDict dc)) world0"
proof -
  have k: "api_key cfg0 = API_KEY (Some ''s3cret'') ''generated''"
    by (simp add: cfg0_def)
  have t: "''generated'' \<noteq> []"
    by simp
  note gate = auth_gate [OF k t, where r = Query and L = mini_lib and D = "mem_driver store5" and w = world0]
  show ?thesis
    using gate [where req = "post (Some ''wrong'') (PDict dc)"]
      gate [where req = "post None (PDict dc)"]
      gate [where req = "post (Some ''s3cret'') (PDict dc)"]
    by (simp add: cfg0_def API_KEY_def post_def jsonify_def error_body_def)
qed

section \<open>Find\<close>

text \<open>
  Claim C2. A find that answers 200 returns \<^verbatim>\<open>count\<close> equal to the length of
  \<^verbatim>\<open>documents\<close>, and at most the effective limit. The two facts about the libraries
  that this rests on are hypotheses: \<^verbatim>\<open>serialize_response\<close> turns a list of \<open>n\<close>
  documents into a JSON array of \<open>n\<close> items, and a cursor given a non-zero limit \<open>n\<close>
  yields at most \<open>\<bar>n\<bar>\<close> documents. The witness is the scenario of the specification:
  filter \<^verbatim>\<open>{}\<close> and limit 2 on a collection of five documents give two documents and
  \<^verbatim>\<open>count: 2\<close>.
\<close>

theorem query_count_limit:
  assumes codec: "\<And>xs j. serialize_response L (PList xs) = Inr j \<Longrightarrow> \<exists>ys. j = PList ys \<and> length ys = length xs"
    and limit_contract: "\<And>c v n c' xs. py_int v = Some n \<Longrightarrow> n \<noteq> 0 \<Longrightarrow> drv_limit D c v = Inr c' \<Longrightarrow>
           drv_list D c' = Inr xs \<Longrightarrow> length xs \<le> nat \<bar>n\<bar>"
    and run: "query L D cfg req w = (Inr resp, w')"
    and ok: "status resp = 200"
  shows "\<exists>db coll docs.
           body resp = PDict [(''database'', db), (''collection'', coll),
                              (''count'', PInt (int (length docs))), (''documents'', PList docs)]
         \<and> (\<forall>m. effective_limit L req = Some m \<longrightarrow> length docs \<le> m)"
proof -
  from run ok have "query_try L D cfg req w = (Inr resp, w')"
    unfolding query_def by (rule except_all_200)
  from query_try_200 [OF this ok] obtain data db_name coll_name lim c2 c3 documents docs where
      data: "get_json req = Inr data"
    and lim: "py_get data ''limit'' (PInt 100) = Inr lim"
    and c3: "cursor_if L lim (drv_limit D) c2 = Inr c3"
    and lst: "drv_list D c3 = Inr documents"
    and ser: "serialize_response L (PList documents) = Inr docs"
    and resp: "resp = jsonify (PDict [(''database'', db_name), (''collection'', coll_name),
                                   (''count'', py_len documents), (''documents'', docs)]) 200"
    by blast
  from codec [OF ser] obtain ys where ys: "docs = PList ys" "length ys = length documents"
    by blast
  have bound: "length documents \<le> m" if m: "effective_limit L req = Some m" for m
  proof -
    from m data lim have t: "truthy L lim" and pi: "map_option (\<lambda>n. nat \<bar>n\<bar>) (py_int lim) = Some m"
      by (auto simp: effective_limit_def split: if_splits)
    from pi obtain n where n: "py_int lim = Some n" "m = nat \<bar>n\<bar>"
      by auto
    from t n have "n \<noteq> 0"
      by (cases lim) (auto split: if_splits)
    moreover from c3 t have "drv_limit D c2 lim = Inr c3"
      by (simp add: cursor_if_def)
    ultimately show ?thesis
      using limit_contract [OF n(1) _ _ lst] n(2) by blast
  qed
  show ?thesis
    using resp ys bound by (auto simp: py_len_def)
qed

theorem query_count_limit_witness:
  "query mini_lib (mem_driver store5) cfg0
      (post None (PDict (dc @ [(''filter'', PDict []), (''limit'', PInt 2)]))) world0
     = (Inr \<lparr>status = 200, body = PDict [(''database'', PStr ''d''), (''collection'', PStr ''c''),
          (''count'', PInt 2),
          (''documents'', PList [PDict [(''_id'', PDict [(''$oid'', PInt 1)]), (''a'', PInt 1)],
                                  PDict [(''_id'', PDict [(''$oid'', PInt 2)]), (''a'', PInt 2)]])]\<rparr>,
        \<lparr>client = Some 0, created = 1\<rparr>)
   \<and> effective_limit mini_lib (post None (PDict (dc @ [(''filter'', PDict []), (''limit'', PInt 2)]))) = Some 2"
proof -
  let ?req = "post None (PDict (dc @ [(''filter'', PDict []), (''limit'', PInt 2)])) :: nat request"
  have run: "query mini_lib (mem_driver store5) cfg0 ?req world0
     = (Inr \<lparr>status = 200, body = PDict [(''database'', PStr ''d''), (''collection'', PStr ''c''),
          (''count'', PInt 2),
          (''documents'', PList [PDict [(''_id'', PDict [(''$oid'', PInt 1)]), (''a'', PInt 1)],
                                  PDict [(''_id'', PDict [(''$oid'', PInt 2)]), (''a'', PInt 2)]])]\<rparr>,
        \<lparr>client = Some 0, created = 1\<rparr>)"
    by (simp add: query_def query_try_def run_defs)
  have eff: "effective_limit mini_lib ?req = Some 2"
    by (simp add: effective_limit_def post_def dc_def)
  from query_count_limit [OF mini_lib_list mem_limit_bound run] run eff
  show ?thesis by simp
qed

text \<open>
  Claim C10. When the body sets \<^verbatim>\<open>limit\<close> to 0, \<^verbatim>\<open>cursor.limit\<close> is never called:
  the response does not depend on what the driver's \<^verbatim>\<open>limit\<close> does. The cursor that is
  listed is the one \<^verbatim>\<open>find\<close> made from the request's own filter and projection, sorted
  and skipped as the request asks, and the response carries every document the driver
  lists for it, with their number as \<^verbatim>\<open>count\<close>. In the witness the filter matches all
  five documents, one is skipped, and the other four come back.
\<close>

theorem limit_zero_unlimited:
  assumes body: "get_json req = Inr (PDict kvs)"
    and zero: "map_of kvs ''limit'' = Some (PInt 0)"
  shows "query L (D\<lparr>drv_limit := other\<rparr>) cfg req w = query L D cfg req w
       \<and> (map_of kvs ''database'' = Some db_name \<and> truthy L db_name
            \<and> map_of kvs ''collection'' = Some coll_name \<and> truthy L coll_name
            \<and> get_client D cfg w = (Inr c, w')
            \<and> client_db_coll D c db_name coll_name = Inr collection
            \<and> py_get (PDict kvs) ''filter'' (PDict []) = Inr flt
            \<and> parse_json_extended L flt = Inr filter_query
            \<and> py_get (PDict kvs) ''projection'' PNone = Inr projection
            \<and> drv_find D collection filter_query projection = Inr c0
            \<and> py_get (PDict kvs) ''sort'' PNone = Inr srt
            \<and> cursor_if L srt (drv_sort D) c0 = Inr c1
            \<and> py_get (PDict kvs) ''skip'' (PInt 0) = Inr skp
            \<and> cursor_if L skp (drv_skip D) c1 = Inr c2 \<longrightarrow>
          query L D cfg req w
            = except_PyMongoError_Exception ''Query error: ''
                (liftE (find_reply L D db_name coll_name c2)) w'
          \<and> (drv_list D c2 = Inr documents \<and> serialize_response L (PList documents) = Inr docs \<longrightarrow>
               query L D cfg req w
                 = (Inr (jsonify (PDict [(''database'', db_name), (''collection'', coll_name),
                                         (''count'', PInt (int (length documents))),
                                         (''documents'', docs)]) 200), w')))"
proof (intro conjI impI)
  have "query_try L (D\<lparr>drv_limit := other\<rparr>) cfg req = query_try L D cfg req"
    unfolding query_try_def
    by (simp add: body zero cursor_if_def client_db_coll_def)
  then show "query L (D\<lparr>drv_limit := other\<rparr>) cfg req w = query L D cfg req w"
    unfolding query_def by simp
next
  assume a: "map_of kvs ''database'' = Some db_name \<and> truthy L db_name
            \<and> map_of kvs ''collection'' = Some coll_name \<and> truthy L coll_name
            \<and> get_client D cfg w = (Inr c, w')
            \<and> client_db_coll D c db_name coll_name = Inr collection
            \<and> py_get (PDict kvs) ''filter'' (PDict []) = Inr flt
            \<and> parse_json_extended L flt = Inr filter_query
            \<and> py_get (PDict kvs) ''projection'' PNone = Inr projection
            \<and> drv_find D collection filter_query projection = Inr c0
            \<and> py_get (PDict kvs) ''sort'' PNone = Inr srt
            \<and> cursor_if L srt (drv_sort D) c0 = Inr c1
            \<and> py_get (PDict kvs) ''skip'' (PInt 0) = Inr skp
            \<and> cursor_if L skp (drv_skip D) c1 = Inr c2"
  then have steps: "map_of kvs ''database'' = Some db_name" "truthy L db_name"
      "map_of kvs ''collection'' = Some coll_name" "truthy L coll_name"
      "get_client D cfg w = (Inr c, w')"
      "client_db_coll D c db_name coll_name = Inr collection"
      "py_get (PDict kvs) ''filter'' (PDict []) = Inr flt"
      "parse_json_extended L flt = Inr filter_query"
      "py_get (PDict kvs) ''projection'' PNone = Inr projection"
      "drv_find D collection filter_query projection = Inr c0"
      "py_get (PDict kvs) ''sort'' PNone = Inr srt"
      "cursor_if L srt (drv_sort D) c0 = Inr c1"
      "py_get (PDict kvs) ''skip'' (PInt 0) = Inr skp"
      "cursor_if L skp (drv_skip D) c1 = Inr c2"
    by blast+
  from zero have lmt: "py_get (PDict kvs) ''limit'' (PInt 100) = Inr (PInt 0)"
    by simp
  have "query_try L D cfg req w
       = (bindE (cursor_if L (PInt 0) (drv_limit D) c2) (find_reply L D db_name coll_name), w')"
    by (rule query_try_after_skip [OF body steps lmt])
  then have run: "query L D cfg req w
            = except_PyMongoError_Exception ''Query error: ''
                (liftE (find_reply L D db_name coll_name c2)) w'"
    unfolding query_def by (simp add: except_all_liftE cursor_if_def)
  then show "query L D cfg req w
            = except_PyMongoError_Exception ''Query error: ''
                (liftE (find_reply L D db_name coll_name c2)) w'" .
  assume "drv_list D c2 = Inr documents \<and> serialize_response L (PList documents) = Inr docs"
  then show "query L D cfg req w
                 = (Inr (jsonify (PDict [(''database'', db_name), (''collection'', coll_name),
                                         (''count'', PInt (int (length documents))),
                                         (''documents'', docs)]) 200), w')"
    unfolding run
    by (simp add: find_reply_def except_PyMongoError_Exception_def liftE_def py_len_def)
qed

theorem limit_zero_unlimited_witness:
  "query mini_lib (mem_driver store5) cfg0
      (post None (PDict (dc @ [(''filter'', PDict []), (''skip'', PInt 1), (''limit'', PInt 0)]))) world0
     = (Inr \<lparr>status = 200, body = PDict [(''database'', PStr ''d''), (''collection'', PStr ''c''),
          (''count'', PInt 4),
          (''documents'', PList [PDict [(''_id'', PDict [(''$oid'', PInt 2)]), (''a'', PInt 2)],
                                  PDict [(''_id'', PDict [(''$oid'', PInt 3)]), (''a'', PInt 3)],
                                  PDict [(''_id'', PDict [(''$oid'', PInt 4)]), (''a'', PInt 4)],
                                  PDict [(''_id'', PDict [(''$oid'', PInt 5)]), (''a'', PInt 5)]])]\<rparr>,
        \<lparr>client = Some 0, created = 1\<rparr>)
   \<and> query mini_lib ((mem_driver store5)\<lparr>drv_limit := drv_skip (mem_driver store5)\<rparr>) cfg0
        (post None (PDict (dc @ [(''filter'', PDict []), (''skip'', PInt 1), (''limit'', PInt 0)]))) world0
     = query mini_lib (mem_driver store5) cfg0
        (post None (PDict (dc @ [(''filter'', PDict []), (''skip'', PInt 1), (''limit'', PInt 0)]))) world0"
proof -
  let ?kvs = "dc @ [(''filter'', PDict []), (''skip'', PInt 1), (''limit'', PInt 0)]
      :: (string \<times> nat pyval) list"
  let ?req = "post None (PDict ?kvs) :: nat request"
  let ?all = "[PDict [(''_id'', PExt 1), (''a'', PInt 1)],
      PDict [(''_id'', PExt 2), (''a'', PInt 2)],
      PDict [(''_id'', PExt 3), (''a'', PInt 3)],
      PDict [(''_id'', PExt 4), (''a'', PInt 4)],
      PDict [(''_id'', PExt 5), (''a'', PInt 5)]] :: nat pyval list"
  have body: "get_json ?req = Inr (PDict ?kvs)"
    by (simp add: post_def)
  have zero: "map_of ?kvs ''limit'' = Some (PInt 0)"
    by (simp add: dc_def)
  have steps: "map_of ?kvs ''database'' = Some (PStr ''d'')" "truthy mini_lib (PStr ''d'' :: nat pyval)"
      "map_of ?kvs ''collection'' = Some (PStr ''c'')" "truthy mini_lib (PStr ''c'' :: nat pyval)"
      "get_client (mem_driver store5) cfg0 world0 = (Inr 0, \<lparr>client = Some 0, created = 1\<rparr>)"
      "client_db_coll (mem_driver store5) 0 (PStr ''d'') (PStr ''c'') = Inr (MCollection ''d'' ''c'')"
      "py_get (PDict ?kvs) ''filter'' (PDict []) = Inr (PDict [])"
      "parse_json_extended mini_lib (PDict []) = Inr (PDict [])"
      "py_get (PDict ?kvs) ''projection'' PNone = Inr PNone"
      "drv_find (mem_driver store5) (MCollection ''d'' ''c'') (PDict []) PNone = Inr (MCursor ?all 0 0)"
      "py_get (PDict ?kvs) ''sort'' PNone = Inr PNone"
      "cursor_if mini_lib PNone (drv_sort (mem_driver store5)) (MCursor ?all 0 0) = Inr (MCursor ?all 0 0)"
      "py_get (PDict ?kvs) ''skip'' (PInt 0) = Inr (PInt 1)"
      "cursor_if mini_lib (PInt 1) (drv_skip (mem_driver store5)) (MCursor ?all 0 0) = Inr (MCursor ?all 1 0)"
    by (simp_all add: run_defs)
  have listed: "drv_list (mem_driver store5) (MCursor ?all 1 0) = Inr (drop 1 ?all)"
    by (simp add: mem_driver_def mem_list_def)
  have encoded: "serialize_response mini_lib (PList (drop 1 ?all))
      = Inr (PList [PDict [(''_id'', PDict [(''$oid'', PInt 2)]), (''a'', PInt 2)],
                    PDict [(''_id'', PDict [(''$oid'', PInt 3)]), (''a'', PInt 3)],
                    PDict [(''_id'', PDict [(''$oid'', PInt 4)]), (''a'', PInt 4)],
                    PDict [(''_id'', PDict [(''$oid'', PInt 5)]), (''a'', PInt 5)]])"
    by (simp add: serialize_response_def mini_lib_def)
  note inst = limit_zero_unlimited [OF body zero, where L = mini_lib and D = "mem_driver store5"
      and cfg = cfg0 and w = world0 and other = "drv_skip (mem_driver store5)"
      and db_name = "PStr ''d''" and coll_name = "PStr ''c''" and c = 0
      and w' = "\<lparr>client = Some 0, created = 1\<rparr>" and collection = "MCollection ''d'' ''c''"
      and flt = "PDict []" and filter_query = "PDict []" and projection = PNone
      and ?c0.0 = "MCursor ?all 0 0" and srt = PNone and ?c1.0 = "MCursor ?all 0 0"
      and skp = "PInt 1" and ?c2.0 = "MCursor ?all 1 0"
      and documents = "drop 1 ?all"
      and docs = "PList [PDict [(''_id'', PDict [(''$oid'', PInt 2)]), (''a'', PInt 2)],
                    PDict [(''_id'', PDict [(''$oid'', PInt 3)]), (''a'', PInt 3)],
                    PDict [(''_id'', PDict [(''$oid'', PInt 4)]), (''a'', PInt 4)],
                    PDict [(''_id'', PDict [(''$oid'', PInt 5)]), (''a'', PInt 5)]]"]
  from inst steps listed encoded show ?thesis
    by (simp add: jsonify_def find_reply_def except_PyMongoError_Exception_def liftE_def py_len_def)
qed

section \<open>Defaults\<close>

text \<open>
  Leaving an optional field out of the body gives the same run as sending the documented
  default, whatever the rest of the body is.
\<close>

lemma omitted_is_default_sent:
  assumes "kvs \<noteq> []"
  shows "(map_of kvs ''limit'' = None \<longrightarrow>
            query L D cfg (with_body req (PDict ((''limit'', PInt 100) # kvs)))
              = query L D cfg (with_body req (PDict kvs)))
       \<and> (map_of kvs ''skip'' = None \<longrightarrow>
            query L D cfg (with_body req (PDict ((''skip'', PInt 0) # kvs)))
              = query L D cfg (with_body req (PDict kvs)))
       \<and> (map_of kvs ''ordered'' = None \<longrightarrow>
            insert_view L D cfg (with_body req (PDict ((''ordered'', PBool True) # kvs)))
              = insert_view L D cfg (with_body req (PDict kvs)))
       \<and> (map_of kvs ''many'' = None \<longrightarrow>
            update L D cfg (with_body req (PDict ((''many'', PBool False) # kvs)))
              = update L D cfg (with_body req (PDict kvs)))
       \<and> (map_of kvs ''upsert'' = None \<longrightarrow>
            update L D cfg (with_body req (PDict ((''upsert'', PBool False) # kvs)))
              = update L D cfg (with_body req (PDict kvs)))
       \<and> (map_of kvs ''many'' = None \<longrightarrow>
            delete L D cfg (with_body req (PDict ((''many'', PBool False) # kvs)))
              = delete L D cfg (with_body req (PDict kvs)))
       \<and> (map_of kvs ''size'' = None \<longrightarrow>
            sample L D cfg (with_body req (PDict ((''size'', PInt 5) # kvs)))
              = sample L D cfg (with_body req (PDict kvs)))"
proof (intro conjI impI)
  assume "map_of kvs ''limit'' = None"
  then show "query L D cfg (with_body req (PDict ((''limit'', PInt 100) # kvs)))
              = query L D cfg (with_body req (PDict kvs))"
    using assms by (simp add: query_def query_try_def)
next
  assume "map_of kvs ''skip'' = None"
  then show "query L D cfg (with_body req (PDict ((''skip'', PInt 0) # kvs)))
              = query L D cfg (with_body req (PDict kvs))"
    using assms by (simp add: query_def query_try_def)
next
  assume "map_of kvs ''ordered'' = None"
  then show "insert_view L D cfg (with_body req (PDict ((''ordered'', PBool True) # kvs)))
              = insert_view L D cfg (with_body req (PDict kvs))"
    using assms by (simp add: insert_view_def insert_try_def)
next
  assume "map_of kvs ''many'' = None"
  then show "update L D cfg (with_body req (PDict ((''many'', PBool False) # kvs)))
              = update L D cfg (with_body req (PDict kvs))"
    using assms by (simp add: update_def update_try_def)
next
  assume "map_of kvs ''upsert'' = None"
  then show "update L D cfg (with_body req (PDict ((''upsert'', PBool False) # kvs)))
              = update L D cfg (with_body req (PDict kvs))"
    using assms by (simp add: update_def update_try_def)
next
  assume "map_of kvs ''many'' = None"
  then show "delete L D cfg (with_body req (PDict ((''many'', PBool False) # kvs)))
              = delete L D cfg (with_body req (PDict kvs))"
    using assms by (simp add: delete_def delete_try_def)
next
  assume "map_of kvs ''size'' = None"
  then show "sample L D cfg (with_body req (PDict ((''size'', PInt 5) # kvs)))
              = sample L D cfg (with_body req (PDict kvs))"
    using assms by (simp add: sample_def sample_try_def)
qed

text \<open>
  Claim C6. On a request that names its database and collection, each view hands the
  documented default to the driver when the optional field is absent: find limits the
  cursor to 100 and does not skip, insert passes \<^verbatim>\<open>ordered=True\<close>, update calls
  \<^verbatim>\<open>update_one\<close> and passes \<^verbatim>\<open>upsert=False\<close>, delete calls \<^verbatim>\<open>delete_one\<close>, and sample
  asks for a \<^verbatim>\<open>$sample\<close> of size 5. In the witness the driver echoes its arguments,
  so the defaults can be read off the responses.
\<close>

theorem documented_defaults:
  assumes body: "get_json req = Inr (PDict kvs)"
    and db: "map_of kvs ''database'' = Some db_name" "truthy L db_name"
    and coll: "map_of kvs ''collection'' = Some coll_name" "truthy L coll_name"
    and client: "get_client D cfg w = (Inr c, w')"
    and collection: "client_db_coll D c db_name coll_name = Inr collection"
    and flt: "py_get (PDict kvs) ''filter'' (PDict []) = Inr flt"
    and parse: "parse_json_extended L flt = Inr filter_query"
  shows "(map_of kvs ''limit'' = None
            \<and> py_get (PDict kvs) ''projection'' PNone = Inr projection
            \<and> drv_find D collection filter_query projection = Inr c0
            \<and> py_get (PDict kvs) ''sort'' PNone = Inr srt
            \<and> cursor_if L srt (drv_sort D) c0 = Inr c1
            \<and> py_get (PDict kvs) ''skip'' (PInt 0) = Inr skp
            \<and> cursor_if L skp (drv_skip D) c1 = Inr c2 \<longrightarrow>
          query L D cfg req w
            = except_PyMongoError_Exception ''Query error: ''
                (liftE (bindE (drv_limit D c2 (PInt 100)) (find_reply L D db_name coll_name))) w')
       \<and> (map_of kvs ''skip'' = None
            \<and> py_get (PDict kvs) ''projection'' PNone = Inr projection
            \<and> drv_find D collection filter_query projection = Inr c0
            \<and> py_get (PDict kvs) ''sort'' PNone = Inr srt
            \<and> cursor_if L srt (drv_sort D) c0 = Inr c1
            \<and> py_get (PDict kvs) ''limit'' (PInt 100) = Inr lmt \<longrightarrow>
          query L D cfg req w
            = except_PyMongoError_Exception ''Query error: ''
                (liftE (bindE (cursor_if L lmt (drv_limit D) c1) (find_reply L D db_name coll_name))) w')
       \<and> (map_of kvs ''ordered'' = None
            \<and> map_of kvs ''documents'' = Some documents \<and> truthy L documents
            \<and> parse_json_extended L (if isinstance_dict documents then PList [documents] else documents)
                = Inr docs \<longrightarrow>
          insert_view L D cfg req w
            = except_PyMongoError_Exception ''Insert error: ''
                (liftE (bindE (drv_insert_many D collection docs (PBool True))
                          (insert_reply L db_name coll_name))) w')
       \<and> (map_of kvs ''many'' = None
            \<and> map_of kvs ''update'' = Some upd \<and> truthy L upd
            \<and> parse_json_extended L upd = Inr update_doc
            \<and> py_get (PDict kvs) ''upsert'' (PBool False) = Inr upsert \<longrightarrow>
          update L D cfg req w
            = except_PyMongoError_Exception ''Update error: ''
                (liftE (bindE (drv_update_one D collection filter_query update_doc upsert)
                          (update_reply L db_name coll_name))) w')
       \<and> (map_of kvs ''upsert'' = None
            \<and> map_of kvs ''update'' = Some upd \<and> truthy L upd
            \<and> parse_json_extended L upd = Inr update_doc
            \<and> py_get (PDict kvs) ''many'' (PBool False) = Inr many \<longrightarrow>
          update L D cfg req w
            = except_PyMongoError_Exception ''Update error: ''
                (liftE (bindE (if truthy L many
                               then drv_update_many D collection filter_query update_doc (PBool False)
                               else drv_update_one D collection filter_query update_doc (PBool False))
                          (update_reply L db_name coll_name))) w')
       \<and> (map_of kvs ''many'' = None \<longrightarrow>
          delete L D cfg req w
            = except_PyMongoError_Exception ''Delete error: ''
                (liftE (bindE (drv_delete_one D collection filter_query)
                          (delete_reply db_name coll_name))) w')
       \<and> (map_of kvs ''size'' = None \<longrightarrow>
          sample L D cfg req w
            = except_PyMongoError_Exception ''Sample error: ''
                (liftE (bindE (drv_aggregate D collection
                                 (PList [PDict [(''$sample'', PDict [(''size'', PInt 5)])]]))
                          (sample_reply L db_name coll_name))) w')"
proof (intro conjI impI)
  assume a: "map_of kvs ''limit'' = None
            \<and> py_get (PDict kvs) ''projection'' PNone = Inr projection
            \<and> drv_find D collection filter_query projection = Inr c0
            \<and> py_get (PDict kvs) ''sort'' PNone = Inr srt
            \<and> cursor_if L srt (drv_sort D) c0 = Inr c1
            \<and> py_get (PDict kvs) ''skip'' (PInt 0) = Inr skp
            \<and> cursor_if L skp (drv_skip D) c1 = Inr c2"
  then have lmt: "py_get (PDict kvs) ''limit'' (PInt 100) = Inr (PInt 100)"
    by simp
  from a have steps: "py_get (PDict kvs) ''projection'' PNone = Inr projection"
      "drv_find D collection filter_query projection = Inr c0"
      "py_get (PDict kvs) ''sort'' PNone = Inr srt"
      "cursor_if L srt (drv_sort D) c0 = Inr c1"
      "py_get (PDict kvs) ''skip'' (PInt 0) = Inr skp"
      "cursor_if L skp (drv_skip D) c1 = Inr c2"
    by blast+
  have "query_try L D cfg req w
       = (bindE (cursor_if L (PInt 100) (drv_limit D) c2) (find_reply L D db_name coll_name), w')"
    by (rule query_try_after_skip [OF body db coll client collection flt parse steps lmt])
  then show "query L D cfg req w
            = except_PyMongoError_Exception ''Query error: ''
                (liftE (bindE (drv_limit D c2 (PInt 100)) (find_reply L D db_name coll_name))) w'"
    unfolding query_def by (simp add: except_all_liftE cursor_if_def)
next
  assume a: "map_of kvs ''skip'' = None
            \<and> py_get (PDict kvs) ''projection'' PNone = Inr projection
            \<and> drv_find D collection filter_query projection = Inr c0
            \<and> py_get (PDict kvs) ''sort'' PNone = Inr srt
            \<and> cursor_if L srt (drv_sort D) c0 = Inr c1
            \<and> py_get (PDict kvs) ''limit'' (PInt 100) = Inr lmt"
  then have skp: "py_get (PDict kvs) ''skip'' (PInt 0) = Inr (PInt 0)"
    by simp
  have unskipped: "cursor_if L (PInt 0) (drv_skip D) c1 = Inr c1"
    by (simp add: cursor_if_def)
  from a have steps: "py_get (PDict kvs) ''projection'' PNone = Inr projection"
      "drv_find D collection filter_query projection = Inr c0"
      "py_get (PDict kvs) ''sort'' PNone = Inr srt"
      "cursor_if L srt (drv_sort D) c0 = Inr c1"
    and lmt: "py_get (PDict kvs) ''limit'' (PInt 100) = Inr lmt"
    by blast+
  have "query_try L D cfg req w
       = (bindE (cursor_if L lmt (drv_limit D) c1) (find_reply L D db_name coll_name), w')"
    by (rule query_try_after_skip [OF body db coll client collection flt parse steps skp unskipped lmt])
  then show "query L D cfg req w
            = except_PyMongoError_Exception ''Query error: ''
                (liftE (bindE (cursor_if L lmt (drv_limit D) c1) (find_reply L D db_name coll_name))) w'"
    unfolding query_def by (simp add: except_all_liftE)
next
  assume a: "map_of kvs ''ordered'' = None
            \<and> map_of kvs ''documents'' = Some documents \<and> truthy L documents
            \<and> parse_json_extended L (if isinstance_dict documents then PList [documents] else documents)
                = Inr docs"
  then have ord: "py_get (PDict kvs) ''ordered'' (PBool True) = Inr (PBool True)"
    by simp
  from a have steps: "map_of kvs ''documents'' = Some documents" "truthy L documents"
    and parsed: "parse_json_extended L (if isinstance_dict documents then PList [documents] else documents)
                = Inr docs"
    by blast+
  have "insert_try L D cfg req w
       = (bindE (drv_insert_many D collection docs (PBool True)) (insert_reply L db_name coll_name), w')"
    by (rule insert_try_after_parse [OF body db coll steps ord client collection parsed])
  then show "insert_view L D cfg req w
            = except_PyMongoError_Exception ''Insert error: ''
                (liftE (bindE (drv_insert_many D collection docs (PBool True))
                          (insert_reply L db_name coll_name))) w'"
    unfolding insert_view_def by (simp add: except_all_liftE)
next
  assume a: "map_of kvs ''many'' = None
            \<and> map_of kvs ''update'' = Some upd \<and> truthy L upd
            \<and> parse_json_extended L upd = Inr update_doc
            \<and> py_get (PDict kvs) ''upsert'' (PBool False) = Inr upsert"
  then have many: "py_get (PDict kvs) ''many'' (PBool False) = Inr (PBool False)"
    by simp
  from a have steps: "map_of kvs ''update'' = Some upd" "truthy L upd"
    and parsed: "parse_json_extended L upd = Inr update_doc"
    and ups: "py_get (PDict kvs) ''upsert'' (PBool False) = Inr upsert"
    by blast+
  have "update_try L D cfg req w
       = (bindE (if truthy L (PBool False)
                 then drv_update_many D collection filter_query update_doc upsert
                 else drv_update_one D collection filter_query update_doc upsert)
            (update_reply L db_name coll_name), w')"
    by (rule update_try_after_parse [OF body db coll steps flt many ups client collection parse parsed])
  then show "update L D cfg req w
            = except_PyMongoError_Exception ''Update error: ''
                (liftE (bindE (drv_update_one D collection filter_query update_doc upsert)
                          (update_reply L db_name coll_name))) w'"
    unfolding update_def by (simp add: except_all_liftE)
next
  assume a: "map_of kvs ''upsert'' = None
            \<and> map_of kvs ''update'' = Some upd \<and> truthy L upd
            \<and> parse_json_extended L upd = Inr update_doc
            \<and> py_get (PDict kvs) ''many'' (PBool False) = Inr many"
  then have ups: "py_get (PDict kvs) ''upsert'' (PBool False) = Inr (PBool False)"
    by simp
  from a have steps: "map_of kvs ''update'' = Some upd" "truthy L upd"
    and parsed: "parse_json_extended L upd = Inr update_doc"
    and many: "py_get (PDict kvs) ''many'' (PBool False) = Inr many"
    by blast+
  have "update_try L D cfg req w
       = (bindE (if truthy L many
                 then drv_update_many D collection filter_query update_doc (PBool False)
                 else drv_update_one D collection filter_query update_doc (PBool False))
            (update_reply L db_name coll_name), w')"
    by (rule update_try_after_parse [OF body db coll steps flt many ups client collection parse parsed])
  then show "update L D cfg req w
            = except_PyMongoError_Exception ''Update error: ''
                (liftE (bindE (if truthy L many
                               then drv_update_many D collection filter_query update_doc (PBool False)
                               else drv_update_one D collection filter_query update_doc (PBool False))
                          (update_reply L db_name coll_name))) w'"
    unfolding update_def by (simp add: except_all_liftE)
next
  assume a: "map_of kvs ''many'' = None"
  then have many: "py_get (PDict kvs) ''many'' (PBool False) = Inr (PBool False)"
    by simp
  have "delete_try L D cfg req w
       = (bindE (if truthy L (PBool False)
                 then drv_delete_many D collection filter_query
                 else drv_delete_one D collection filter_query)
            (delete_reply db_name coll_name), w')"
    by (rule delete_try_after_parse [OF body db coll flt many client collection parse])
  then show "delete L D cfg req w
            = except_PyMongoError_Exception ''Delete error: ''
                (liftE (bindE (drv_delete_one D collection filter_query)
                          (delete_reply db_name coll_name))) w'"
    unfolding delete_def by (simp add: except_all_liftE)
next
  assume a: "map_of kvs ''size'' = None"
  then have size: "py_get (PDict kvs) ''size'' (PInt 5) = Inr (PInt 5)"
    by simp
  have "sample_try L D cfg req w
       = (bindE (drv_aggregate D collection (PList [PDict [(''$sample'', PDict [(''size'', PInt 5)])]]))
            (sample_reply L db_name coll_name), w')"
    by (rule sample_try_at_aggregate [OF body db coll size client collection])
  then show "sample L D cfg req w
            = except_PyMongoError_Exception ''Sample error: ''
                (liftE (bindE (drv_aggregate D collection
                                 (PList [PDict [(''$sample'', PDict [(''size'', PInt 5)])]]))
                          (sample_reply L db_name coll_name))) w'"
    unfolding sample_def by (simp add: except_all_liftE)
qed

theorem documented_defaults_witness:
  "query mini_lib echo_driver cfg0 (post None (PDict full_body)) world0
     = (Inr \<lparr>status = 200, body = PDict [(''database'', PStr ''d''), (''collection'', PStr ''c''),
          (''count'', PInt 1),
          (''documents'', PList [PDict [(''limit'', PInt 100),
              (''of'', PDict [(''find'', PDict []), (''projection'', PNone)])]])]\<rparr>,
        \<lparr>client = Some 0, created = 1\<rparr>)
   \<and> insert_view mini_lib echo_driver cfg0 (post None (PDict full_body)) world0
     = (Inr \<lparr>status = 200, body = PDict [(''database'', PStr ''d''), (''collection'', PStr ''c''),
          (''inserted_count'', PInt 1),
          (''inserted_ids'', PList [PDict [(''documents'', PList [PDict [(''a'', PInt 1)]]),
              (''ordered'', PBool True)]])]\<rparr>,
        \<lparr>client = Some 0, created = 1\<rparr>)
   \<and> update mini_lib echo_driver cfg0 (post None (PDict full_body)) world0
     = (Inr \<lparr>status = 200, body = PDict [(''database'', PStr ''d''), (''collection'', PStr ''c''),
          (''matched_count'', PInt 1), (''modified_count'', PInt 1),
          (''upserted_id'', PDict [(''upsert'', PBool False)])]\<rparr>,
        \<lparr>client = Some 0, created = 1\<rparr>)
   \<and> delete mini_lib echo_driver cfg0 (post None (PDict full_body)) world0
     = (Inr \<lparr>status = 200, body = PDict [(''database'', PStr ''d''), (''collection'', PStr ''c''),
          (''deleted_count'', PInt 1)]\<rparr>,
        \<lparr>client = Some 0, created = 1\<rparr>)
   \<and> sample mini_lib echo_driver cfg0 (post None (PDict full_body)) world0
     = (Inr \<lparr>status = 200, body = PDict [(''database'', PStr ''d''), (''collection'', PStr ''c''),
          (''count'', PInt 1),
          (''documents'', PList [PDict [(''pipeline'',
              PList [PDict [(''$sample'', PDict [(''size'', PInt 5)])]])]])]\<rparr>,
        \<lparr>client = Some 0, created = 1\<rparr>)"
proof -
  let ?req = "post None (PDict full_body) :: nat request"
  let ?find = "PDict [(''find'', PDict []), (''projection'', PNone)] :: nat pyval"
  have body: "get_json ?req = Inr (PDict full_body)"
    by (simp add: post_def)
  have db: "map_of full_body ''database'' = Some (PStr ''d'')" "truthy mini_lib (PStr ''d'' :: nat pyval)"
    and coll: "map_of full_body ''collection'' = Some (PStr ''c'')" "truthy mini_lib (PStr ''c'' :: nat pyval)"
    by (simp_all add: full_body_def dc_def)
  have client: "get_client echo_driver cfg0 world0 = (Inr 0, \<lparr>client = Some 0, created = 1\<rparr>)"
    by (simp add: get_client_def echo_driver_def world0_def)
  have collection: "client_db_coll echo_driver 0 (PStr ''d'') (PStr ''c'')
      = Inr (PDict [(''collection'', PStr ''c'')])"
    by (simp add: client_db_coll_def echo_driver_def)
  have flt: "py_get (PDict full_body) ''filter'' (PDict []) = Inr (PDict [])"
    by (simp add: full_body_def dc_def)
  have parse: "parse_json_extended mini_lib (PDict []) = Inr (PDict [])"
    by (simp add: parse_json_extended_def mini_lib_def as_oid_def)
  note inst = documented_defaults [OF body db coll client collection flt parse,
      where projection = PNone and ?c0.0 = ?find and srt = PNone and ?c1.0 = ?find
        and skp = "PInt 0" and ?c2.0 = ?find and lmt = "PInt 100"
        and documents = "PDict [(''a'', PInt 1)]" and docs = "PList [PDict [(''a'', PInt 1)]]"
        and upd = "PDict [(''$set'', PDict [(''a'', PInt 2)])]"
        and update_doc = "PDict [(''$set'', PDict [(''a'', PInt 2)])]"
        and upsert = "PBool False" and many = "PBool False"]
  from inst show ?thesis
    by (simp add: echo_defs find_reply_def insert_reply_def update_reply_def delete_reply_def
        sample_reply_def)
qed

section \<open>Insert\<close>

text \<open>
  Claim C7, as stated, fails: the empty document \<^verbatim>\<open>{}\<close> is false in Python, so
  the guard of line 296 rejects \<^verbatim>\<open>"documents": {}\<close> with 400, while
  \<^verbatim>\<open>"documents": [{}]\<close> is inserted.
\<close>

theorem insert_empty_object_rejected:
  "insert_view mini_lib (mem_driver store5) cfg0
      (with_body (post None PNone) (PDict ((''documents'', PDict []) # dc))) world0
     = (Inr \<lparr>status = 400,
              body = PDict [(''error'', PStr ''database, collection, and documents are required'')]\<rparr>,
        world0)
   \<and> insert_view mini_lib (mem_driver store5) cfg0
      (with_body (post None PNone) (PDict ((''documents'', PList [PDict []]) # dc))) world0
     = (Inr \<lparr>status = 200, body = PDict [(''database'', PStr ''d''), (''collection'', PStr ''c''),
          (''inserted_count'', PInt 1), (''inserted_ids'', PList [PDict [(''$oid'', PInt 0)]])]\<rparr>,
        \<lparr>client = Some 0, created = 1\<rparr>)"
  by (simp add: insert_view_def insert_try_def run_defs)

text \<open>
  Claim C7, amended. For every non-empty document object \<open>d\<close>, an insert whose
  \<^verbatim>\<open>documents\<close> field is \<open>d\<close> and an insert whose \<^verbatim>\<open>documents\<close> field is the
  one-element array \<open>[d]\<close> have the same result shape: each makes the call
  \<^verbatim>\<open>insert_many([d], ordered)\<close> and reports the number of ids that call returns as
  \<^verbatim>\<open>inserted_count\<close> and their encoding as \<^verbatim>\<open>inserted_ids\<close>. The witness is the
  scenario of the specification: inserting \<^verbatim>\<open>{"a": 1}\<close>, in either form, returns
  \<^verbatim>\<open>inserted_count: 1\<close> and one id.
\<close>

theorem insert_object_as_singleton:
  assumes nonempty: "d \<noteq> []"
    and form: "documents = PDict d \<or> documents = PList [PDict d]"
    and body: "get_json req = Inr (PDict kvs)"
    and documents: "map_of kvs ''documents'' = Some documents"
    and db: "map_of kvs ''database'' = Some db_name" "truthy L db_name"
    and coll: "map_of kvs ''collection'' = Some coll_name" "truthy L coll_name"
    and ordered: "py_get (PDict kvs) ''ordered'' (PBool True) = Inr ordered"
    and client: "get_client D cfg w = (Inr c, w')"
    and collection: "client_db_coll D c db_name coll_name = Inr collection"
    and parse: "parse_json_extended L (PList [PDict d]) = Inr docs"
  shows "insert_view L D cfg req w
           = except_PyMongoError_Exception ''Insert error: ''
               (liftE (bindE (drv_insert_many D collection docs ordered)
                         (insert_reply L db_name coll_name))) w'
       \<and> (drv_insert_many D collection docs ordered = Inr inserted_ids
            \<and> serialize_response L (PList inserted_ids) = Inr ids \<longrightarrow>
          insert_view L D cfg req w
            = (Inr (jsonify (PDict [(''database'', db_name), (''collection'', coll_name),
                                    (''inserted_count'', PInt (int (length inserted_ids))),
                                    (''inserted_ids'', ids)]) 200), w'))"
proof -
  from form nonempty have t: "truthy L documents"
    by auto
  from form have wrap: "(if isinstance_dict documents then PList [documents] else documents) = PList [PDict d]"
    by auto
  have "insert_try L D cfg req w
       = (bindE (drv_insert_many D collection docs ordered) (insert_reply L db_name coll_name), w')"
    by (rule insert_try_after_parse [OF body db coll documents t ordered client collection])
       (simp add: wrap parse)
  then have run: "insert_view L D cfg req w
           = except_PyMongoError_Exception ''Insert error: ''
               (liftE (bindE (drv_insert_many D collection docs ordered)
                         (insert_reply L db_name coll_name))) w'"
    unfolding insert_view_def by (simp add: except_all_liftE)
  show ?thesis
    unfolding run
    by (simp add: insert_reply_def except_PyMongoError_Exception_def liftE_def py_len_def)
qed

theorem insert_object_as_singleton_witness:
  "insert_view mini_lib (mem_driver store5) cfg0
      (post None (PDict ((''documents'', PDict [(''a'', PInt 1)]) # dc))) world0
     = (Inr \<lparr>status = 200, body = PDict [(''database'', PStr ''d''), (''collection'', PStr ''c''),
          (''inserted_count'', PInt 1), (''inserted_ids'', PList [PDict [(''$oid'', PInt 0)]])]\<rparr>,
        \<lparr>client = Some 0, created = 1\<rparr>)
   \<and> insert_view mini_lib (mem_driver store5) cfg0
      (post None (PDict ((''documents'', PList [PDict [(''a'', PInt 1)]]) # dc))) world0
     = (Inr \<lparr>status = 200, body = PDict [(''database'', PStr ''d''), (''collection'', PStr ''c''),
          (''inserted_count'', PInt 1), (''inserted_ids'', PList [PDict [(''$oid'', PInt 0)]])]\<rparr>,
        \<lparr>client = Some 0, created = 1\<rparr>)"
proof -
  let ?d = "[(''a'', PInt 1)] :: (string \<times> nat pyval) list"
  have nonempty: "?d \<noteq> []"
    by simp
  have client: "get_client (mem_driver store5) cfg0 world0 = (Inr 0, \<lparr>client = Some 0, created = 1\<rparr>)"
    by (simp add: run_defs)
  have collection: "client_db_coll (mem_driver store5) 0 (PStr ''d'') (PStr ''c'') = Inr (MCollection ''d'' ''c'')"
    by (simp add: run_defs)
  have parse: "parse_json_extended mini_lib (PList [PDict ?d]) = Inr (PList [PDict ?d])"
    by (simp add: run_defs)
  have inserted: "drv_insert_many (mem_driver store5) (MCollection ''d'' ''c'') (PList [PDict ?d]) (PBool True)
      = Inr [PExt 0]"
    by (simp add: run_defs)
  have encoded: "serialize_response mini_lib (PList [PExt 0]) = Inr (PList [PDict [(''$oid'', PInt 0)]])"
    by (simp add: run_defs)
  have t: "truthy mini_lib (PStr ''d'' :: nat pyval)" "truthy mini_lib (PStr ''c'' :: nat pyval)"
    by simp_all
  have as_object: "insert_view mini_lib (mem_driver store5) cfg0
      (post None (PDict ((''documents'', PDict ?d) # dc))) world0
     = (Inr (jsonify (PDict [(''database'', PStr ''d''), (''collection'', PStr ''c''),
          (''inserted_count'', PInt (int (length [PExt 0 :: nat pyval]))),
          (''inserted_ids'', PList [PDict [(''$oid'', PInt 0)]])]) 200),
        \<lparr>client = Some 0, created = 1\<rparr>)"
    using insert_object_as_singleton [OF nonempty _ _ _ _ t(1) _ t(2) _ client collection parse,
        where documents = "PDict ?d" and req = "post None (PDict ((''documents'', PDict ?d) # dc))"
          and kvs = "(''documents'', PDict ?d) # dc" and ordered = "PBool True"
          and inserted_ids = "[PExt 0]" and ids = "PList [PDict [(''$oid'', PInt 0)]]"]
      inserted encoded
    by (simp add: post_def dc_def insert_reply_def except_PyMongoError_Exception_def liftE_def py_len_def)
  have as_array: "insert_view mini_lib (mem_driver store5) cfg0
      (post None (PDict ((''documents'', PList [PDict ?d]) # dc))) world0
     = (Inr (jsonify (PDict [(''database'', PStr ''d''), (''collection'', PStr ''c''),
          (''inserted_count'', PInt (int (length [PExt 0 :: nat pyval]))),
          (''inserted_ids'', PList [PDict [(''$oid'', PInt 0)]])]) 200),
        \<lparr>client = Some 0, created = 1\<rparr>)"
    using insert_object_as_singleton [OF nonempty _ _ _ _ t(1) _ t(2) _ client collection parse,
        where documents = "PList [PDict ?d]" and req = "post None (PDict ((''documents'', PList [PDict ?d]) # dc))"
          and kvs = "(''documents'', PList [PDict ?d]) # dc" and ordered = "PBool True"
          and inserted_ids = "[PExt 0]" and ids = "PList [PDict [(''$oid'', PInt 0)]]"]
      inserted encoded
    by (simp add: post_def dc_def insert_reply_def except_PyMongoError_Exception_def liftE_def py_len_def)
  from as_object as_array show ?thesis
    by (simp add: jsonify_def)
qed

section \<open>Delete\<close>

text \<open>
  Claim C8. A delete with \<^verbatim>\<open>many\<close> false or absent goes to \<^verbatim>\<open>delete_one\<close> and
  returns its count unchanged; given that \<^verbatim>\<open>delete_one\<close> deletes at most one
  document, the response is an error or carries a \<^verbatim>\<open>deleted_count\<close> of at most 1.
\<close>

theorem delete_one_at_most:
  assumes contract: "\<And>coll flt n. drv_delete_one D coll flt = Inr n \<Longrightarrow> n \<le> 1"
    and data: "get_json req = Inr (PDict kvs)"
    and many: "map_of kvs ''many'' = None \<or> map_of kvs ''many'' = Some (PBool False)"
    and run: "delete L D cfg req w = (Inr resp, w')"
  shows "(\<exists>msg. body resp = error_body msg)
       \<or> (\<exists>db coll n. body resp = PDict [(''database'', db), (''collection'', coll), (''deleted_count'', PInt n)] \<and> n \<le> 1)"
proof -
  from run have "delete_try L D cfg req w = (Inr resp, w')
     \<or> (\<exists>msg. resp = jsonify (error_body msg) 500) \<or> (\<exists>msg. resp = jsonify (error_body msg) 400)"
    unfolding delete_def by (rule except_all_cases)
  then show ?thesis
  proof (elim disjE exE)
    assume t: "delete_try L D cfg req w = (Inr resp, w')"
    from many have m: "py_get (PDict kvs) ''many'' (PBool False) = Inr (PBool False)"
      by auto
    from t data m show ?thesis
      unfolding delete_try_def
      by (auto simp: bindW_eq_Inr bindE_eq_Inr liftE_apply respond_apply split: if_splits dest: contract)
  qed auto
qed

theorem delete_one_at_most_witness:
  "delete mini_lib (mem_driver store5) cfg0 (post None (PDict dc)) world0
     = (Inr \<lparr>status = 200, body = PDict [(''database'', PStr ''d''), (''collection'', PStr ''c''),
                                          (''deleted_count'', PInt 1)]\<rparr>,
        \<lparr>client = Some 0, created = 1\<rparr>)
   \<and> ((\<exists>msg. PDict [(''database'', PStr ''d''), (''collection'', PStr ''c''), (''deleted_count'', PInt 1)]
              = (error_body msg :: nat pyval))
      \<or> (\<exists>db coll n. PDict [(''database'', PStr ''d''), (''collection'', PStr ''c''), (''deleted_count'', PInt 1)]
              = PDict [(''database'', db :: nat pyval), (''collection'', coll), (''deleted_count'', PInt n)] \<and> n \<le> 1))"
proof -
  have run: "delete mini_lib (mem_driver store5) cfg0 (post None (PDict dc)) world0
     = (Inr \<lparr>status = 200, body = PDict [(''database'', PStr ''d''), (''collection'', PStr ''c''),
                                          (''deleted_count'', PInt 1)]\<rparr>,
        \<lparr>client = Some 0, created = 1\<rparr>)"
    by (simp add: delete_def delete_try_def run_defs)
  have body: "get_json (post None (PDict dc) :: nat request) = Inr (PDict dc)"
    by (simp add: post_def)
  have many: "map_of dc ''many'' = None \<or> map_of dc ''many'' = Some (PBool False)"
    by (simp add: dc_def)
  from delete_one_at_most [OF mem_delete_one_le body many run] run
  show ?thesis by simp
qed

section \<open>Exceptions that are not driver errors\<close>




section \<open>Collection listing\<close>



section \<open>The connection singleton\<close>














text \<open>A thread that runs alone through lines 66 to 68 does what \<open>get_client\<close> does.\<close>

lemma get_client_steps:
  "run_threads D cfg [0, 0, 0] ([L66], w)
     = ([case fst (get_client D cfg w) of Inl e \<Rightarrow> Raised e | Inr c \<Rightarrow> Returned (Some c)],
        snd (get_client D cfg w))"
  by (auto simp: get_client_def split: option.splits)




end
